theory Spec2Isabelle
  imports Complex_Main
begin

section \<open>Newton--Raphson fractals: the solver, the grid and the classification\<close>

text \<open>
  The program is \<^verbatim>\<open>Fractal_exercis_new.py\<close>. Python's \<^verbatim>\<open>float\<close> and
  \<^verbatim>\<open>complex\<close> are embedded as \<^typ>\<open>real\<close> and \<^typ>\<open>complex\<close>: arithmetic is
  exact, so rounding and not-a-number values are outside this development. The
  exceptions that CPython raises on overflow are added in a second embedding of the
  solvers, below.
  Python's \<^verbatim>\<open>int\<close> is \<^typ>\<open>int\<close>. An exception is a value \<open>Inl e\<close> of a sum type,
  and a function that falls off its end returns Python's \<^verbatim>\<open>None\<close>, here \<open>None\<close>.
  The module-level variables \<^verbatim>\<open>M\<close>, \<^verbatim>\<open>N\<close>, \<^verbatim>\<open>tolerance\<close>, \<^verbatim>\<open>tolerance2\<close> and the
  grid corners, which the functions read as globals, are passed as arguments.
\<close>

subsection \<open>Errors and outcomes\<close>

datatype error = ZeroDivisionError | TypeError | OverflowError

text \<open>
  The six-component tuple returned by \<^verbatim>\<open>solve_cnewton\<close>, with the names under which
  the script unpacks it:
  \<^verbatim>\<open>x_duplet, y_duplet, root, f_root, counter, log_counter = solve_cnewton(...)\<close>.
\<close>

record outcome =
  o_x_duplet :: real
  o_y_duplet :: real
  o_root :: complex
  o_f_root :: complex
  o_counter :: int
  o_log_counter :: real

subsection \<open>The cubic\<close>

text \<open>\<^verbatim>\<open>def f(z): return z**3 - 1\<close>\<close>

definition f :: "complex \<Rightarrow> complex" where
  "f z = z ^ 3 - 1"

text \<open>
  \<^verbatim>\<open>def Newton_Raphson(z): z_new = z - (z**3 - 1)/(3*z**2); return z_new\<close>

  Python's complex division raises \<^verbatim>\<open>ZeroDivisionError\<close> when the divisor is zero.
\<close>

definition Newton_Raphson :: "complex \<Rightarrow> error + complex" where
  "Newton_Raphson z =
     (if 3 * z ^ 2 = 0 then Inl ZeroDivisionError
      else Inr (z - (z ^ 3 - 1) / (3 * z ^ 2)))"

text \<open>
  The body of \<^verbatim>\<open>for i in range(M)\<close> in \<^verbatim>\<open>solve_cnewton\<close>, entered with the current
  \<open>i\<close>, \<open>z\<close> and \<open>counter\<close>. When the range is used up the function ends without a
  \<^verbatim>\<open>return\<close>, which yields \<open>None\<close>.
\<close>

function cnewton_loop ::
  "int \<Rightarrow> real \<Rightarrow> real \<Rightarrow> real \<Rightarrow> int \<Rightarrow> complex \<Rightarrow> int \<Rightarrow> error + outcome option" where
  "cnewton_loop M tolerance x_duplet y_duplet i z counter =
     (if i < M then
        (case Newton_Raphson z of
           Inl e \<Rightarrow> Inl e
         | Inr z_new \<Rightarrow>
             (let counter' = counter + 1;
                  f_new = f z_new
              in if f_new = 0 \<or> cmod (z_new - z) < tolerance then
                   Inr (Some \<lparr>o_x_duplet = x_duplet, o_y_duplet = y_duplet, o_root = z_new,
                     o_f_root = f_new, o_counter = counter',
                     o_log_counter = log 10 (real_of_int counter')\<rparr>)
                 else if i = M - 1 then
                   Inr (Some \<lparr>o_x_duplet = x_duplet, o_y_duplet = y_duplet, o_root = z_new,
                     o_f_root = f_new, o_counter = counter',
                     o_log_counter = log 10 (real_of_int counter')\<rparr>)
                 else cnewton_loop M tolerance x_duplet y_duplet (i + 1) z_new counter'))
      else Inr None)"
  by pat_completeness auto
termination
  by (relation "measure (\<lambda>(M, tolerance, x_duplet, y_duplet, i, z, counter). nat (M - i))") auto

declare cnewton_loop.simps [simp del]

definition solve_cnewton :: "int \<Rightarrow> real \<Rightarrow> real \<times> real \<Rightarrow> error + outcome option" where
  "solve_cnewton M tolerance duplet =
     (let counter = 0;
          (x_duplet, y_duplet) = duplet;
          z = Complex x_duplet y_duplet
      in cnewton_loop M tolerance x_duplet y_duplet 0 z counter)"

subsection \<open>The polynomial of degree nine\<close>

definition f2 :: "complex \<Rightarrow> complex" where
  "f2 z = 35 * z ^ 9 - 180 * z ^ 7 + 378 * z ^ 5 - 420 * z ^ 3 + 315 * z"

definition Newton_Raphson2 :: "complex \<Rightarrow> error + complex" where
  "Newton_Raphson2 z =
     (if 35 * 9 * z ^ 8 - 180 * 7 * z ^ 6 + 378 * 5 * z ^ 4 - 420 * 3 * z ^ 2 + 315 = 0
      then Inl ZeroDivisionError
      else Inr (z - (35 * z ^ 9 - 180 * z ^ 7 + 378 * z ^ 5 - 420 * z ^ 3 + 315 * z)
                  / (35 * 9 * z ^ 8 - 180 * 7 * z ^ 6 + 378 * 5 * z ^ 4 - 420 * 3 * z ^ 2 + 315)))"

function cnewton2_loop ::
  "int \<Rightarrow> real \<Rightarrow> real \<Rightarrow> real \<Rightarrow> int \<Rightarrow> complex \<Rightarrow> int \<Rightarrow> error + outcome option" where
  "cnewton2_loop M tolerance x_duplet y_duplet i z counter =
     (if i < M then
        (case Newton_Raphson2 z of
           Inl e \<Rightarrow> Inl e
         | Inr z_new \<Rightarrow>
             (let counter' = counter + 1;
                  f_new = f2 z_new
              in if f_new = 0 \<or> cmod (z_new - z) < tolerance then
                   Inr (Some \<lparr>o_x_duplet = x_duplet, o_y_duplet = y_duplet, o_root = z_new,
                     o_f_root = f_new, o_counter = counter',
                     o_log_counter = log 10 (real_of_int counter')\<rparr>)
                 else if i = M - 1 then
                   Inr (Some \<lparr>o_x_duplet = x_duplet, o_y_duplet = y_duplet, o_root = z_new,
                     o_f_root = f_new, o_counter = counter',
                     o_log_counter = log 10 (real_of_int counter')\<rparr>)
                 else cnewton2_loop M tolerance x_duplet y_duplet (i + 1) z_new counter'))
      else Inr None)"
  by pat_completeness auto
termination
  by (relation "measure (\<lambda>(M, tolerance, x_duplet, y_duplet, i, z, counter). nat (M - i))") auto

declare cnewton2_loop.simps [simp del]

definition solve_cnewton2 :: "int \<Rightarrow> real \<Rightarrow> real \<times> real \<Rightarrow> error + outcome option" where
  "solve_cnewton2 M tolerance duplet =
     (let counter = 0;
          (x_duplet, y_duplet) = duplet;
          z = Complex x_duplet y_duplet
      in cnewton2_loop M tolerance x_duplet y_duplet 0 z counter)"

subsection \<open>The iterates of a Newton map\<close>

text \<open>
  The sequence \<open>z\<^sub>0, z\<^sub>1, \<dots>\<close> that the loop of a solver walks through: \<open>z\<^sub>k\<close> is the
  update function applied \<open>k\<close> times, and is an error once one application raises.
\<close>

primrec iterates :: "(complex \<Rightarrow> error + complex) \<Rightarrow> nat \<Rightarrow> complex \<Rightarrow> error + complex" where
  "iterates step 0 z = Inr z"
| "iterates step (Suc k) z =
     (case iterates step k z of Inl e \<Rightarrow> Inl e | Inr w \<Rightarrow> step w)"

subsection \<open>The grid\<close>

text \<open>
  \<^verbatim>\<open>np.linspace(start, stop, num)\<close>, after numpy's definition: \<open>num\<close> evenly spaced samples
  \<open>start + k * step\<close> with \<open>step = (stop - start) / (num - 1)\<close>, the last sample set to
  \<open>stop\<close> when there is more than one. The number of samples is a natural number
  (numpy rejects a negative one).
\<close>

definition linspace :: "real \<Rightarrow> real \<Rightarrow> nat \<Rightarrow> real list" where
  "linspace start stop num =
     (let d = num - 1;
          delta = stop - start;
          ys = (if 0 < d then map (\<lambda>k. real k * (delta / real d) + start) [0..<num]
                else map (\<lambda>k. real k * delta + start) [0..<num])
      in if 1 < num then ys[num - 1 := stop] else ys)"

text \<open>
  \<^verbatim>\<open>np.meshgrid(xs, ys)\<close> with its default \<^verbatim>\<open>indexing='xy'\<close>: two matrices with
  \<open>length ys\<close> rows and \<open>length xs\<close> columns; every row of the first is \<open>xs\<close>, and row
  \<open>i\<close> of the second is constantly \<open>ys ! i\<close>.
\<close>

definition meshgrid :: "real list \<Rightarrow> real list \<Rightarrow> real list list \<times> real list list" where
  "meshgrid xs ys = (map (\<lambda>_. xs) ys, map (\<lambda>v. map (\<lambda>_. v) xs) ys)"

text \<open>\<^verbatim>\<open>np.dstack((x, y))\<close>: entry \<open>[i][j]\<close> is the pair \<open>(x[i][j], y[i][j])\<close>.\<close>

definition dstack :: "real list list \<times> real list list \<Rightarrow> (real \<times> real) list list" where
  "dstack xy = (case xy of (x, y) \<Rightarrow> map (\<lambda>(xr, yr). zip xr yr) (zip x y))"

text \<open>
  \<^verbatim>\<open>
  x1, y1 = grid_point1
  x2, y2 = grid_point2
  x_values = np.linspace(x1, x2, N)
  y_values = np.linspace(y1, y2, N)
  x, y = np.meshgrid(x_values, y_values)
  grid = np.dstack((x, y))
  \<close>
\<close>

definition grid :: "nat \<Rightarrow> real \<times> real \<Rightarrow> real \<times> real \<Rightarrow> (real \<times> real) list list" where
  "grid N grid_point1 grid_point2 =
     (case grid_point1 of (x1, y1) \<Rightarrow>
      case grid_point2 of (x2, y2) \<Rightarrow>
        (let x_values = linspace x1 x2 N;
             y_values = linspace y1 y2 N
         in dstack (meshgrid x_values y_values)))"

text \<open>Linear interpolation, the formula the specification states the grid with.\<close>

definition lerp :: "real \<Rightarrow> real \<Rightarrow> real \<Rightarrow> real" where
  "lerp a b t = a + (b - a) * t"

subsection \<open>Classification\<close>

text \<open>
  The \<^verbatim>\<open>if\<close>/\<^verbatim>\<open>elif\<close>/\<^verbatim>\<open>else\<close> chain of the cubic's grid loop; the label is the colour
  handed to \<^verbatim>\<open>plt.scatter\<close>. The argument \<open>rt\<close> is the script's \<^verbatim>\<open>root\<close>.
\<close>

definition cubic_colour :: "real \<Rightarrow> complex \<Rightarrow> string" where
  "cubic_colour tolerance2 rt =
     (if \<bar>Re rt - 1\<bar> < tolerance2 then ''k''
      else if \<bar>Im rt - 0.8660254040\<bar> < tolerance2 then ''g''
      else ''r'')"

text \<open>The chain of the degree-nine grid loop.\<close>

definition degree9_colour :: "real \<Rightarrow> complex \<Rightarrow> string" where
  "degree9_colour tolerance2 rt =
     (if \<bar>Re rt - 0\<bar> < tolerance2 then ''k''
      else if \<bar>Re rt - 0.93774544\<bar> < tolerance2 \<and> \<bar>Im rt - 0.65437520\<bar> < tolerance2
        then ''g''
      else if \<bar>Re rt - 0.93774544\<bar> < tolerance2 \<and> \<bar>Im rt + 0.65437520\<bar> < tolerance2
        then ''r''
      else if \<bar>Re rt + 0.93774544\<bar> < tolerance2 \<and> \<bar>Im rt - 0.65437520\<bar> < tolerance2
        then ''darkorchid''
      else if \<bar>Re rt + 0.93774544\<bar> < tolerance2 \<and> \<bar>Im rt + 0.65437520\<bar> < tolerance2
        then ''orange''
      else if \<bar>Re rt + 1.48569\<bar> < tolerance2 \<and> \<bar>Im rt - 0.295006\<bar> < tolerance2
        then ''yellow''
      else if \<bar>Re rt + 1.48569\<bar> < tolerance2 \<and> \<bar>Im rt + 0.295006\<bar> < tolerance2
        then ''cyan''
      else if \<bar>Re rt - 1.48569\<bar> < tolerance2 \<and> \<bar>Im rt - 0.295006\<bar> < tolerance2
        then ''w''
      else ''pink'')"

subsection \<open>The grid loop of the cubic\<close>





subsection \<open>The exceptions of float arithmetic\<close>

text \<open>
  The definitions above compute with exact numbers and know one arithmetic exception,
  \<^verbatim>\<open>ZeroDivisionError\<close>. CPython raises a second one in the solvers:
  \<^verbatim>\<open>OverflowError\<close>, from \<^verbatim>\<open>complex ** int\<close> when a component of the power is too
  large for a double (\<^verbatim>\<open>complex exponentiation\<close>), and from \<^verbatim>\<open>abs\<close> of a complex number
  when the modulus is (\<^verbatim>\<open>absolute value too large\<close>). Complex multiplication, addition,
  subtraction and division raise nothing on overflow. The following second embedding of
  the solvers keeps the exact values and adds these exceptions, with the largest double
  \<^verbatim>\<open>sys.float_info.max\<close> as the bound; rounding and underflow are still not modelled.
\<close>

definition DBL_MAX :: real where
  "DBL_MAX = (2 ^ 53 - 1) * 2 ^ 971"

definition in_range :: "complex \<Rightarrow> bool" where
  "in_range w \<longleftrightarrow> \<bar>Re w\<bar> \<le> DBL_MAX \<and> \<bar>Im w\<bar> \<le> DBL_MAX"

text \<open>\<^verbatim>\<open>z ** n\<close> for a complex \<open>z\<close> and a small natural number \<open>n\<close>.\<close>

definition py_pow :: "complex \<Rightarrow> nat \<Rightarrow> error + complex" where
  "py_pow z n = (if in_range (z ^ n) then Inr (z ^ n) else Inl OverflowError)"

text \<open>\<^verbatim>\<open>abs(w)\<close> for a complex \<open>w\<close>.\<close>

definition py_abs :: "complex \<Rightarrow> error + real" where
  "py_abs w = (if cmod w \<le> DBL_MAX then Inr (cmod w) else Inl OverflowError)"

text \<open>\<^verbatim>\<open>def f(z): return z**3 - 1\<close>\<close>

definition f_checked :: "complex \<Rightarrow> error + complex" where
  "f_checked z = (case py_pow z 3 of Inl e \<Rightarrow> Inl e | Inr p3 \<Rightarrow> Inr (p3 - 1))"

text \<open>
  \<^verbatim>\<open>z_new = z - (z**3 - 1)/(3*z**2)\<close>: the operands are evaluated from left to right,
  so \<^verbatim>\<open>z**3\<close> first, then \<^verbatim>\<open>z**2\<close>, then the division.
\<close>

definition Newton_Raphson_checked :: "complex \<Rightarrow> error + complex" where
  "Newton_Raphson_checked z =
     (case py_pow z 3 of Inl e \<Rightarrow> Inl e | Inr p3 \<Rightarrow>
      case py_pow z 2 of Inl e \<Rightarrow> Inl e | Inr p2 \<Rightarrow>
        if 3 * p2 = 0 then Inl ZeroDivisionError
        else Inr (z - (p3 - 1) / (3 * p2)))"

text \<open>
  The loop of \<^verbatim>\<open>solve_cnewton\<close>. In \<^verbatim>\<open>f_new == 0 or abs(z_new - z) < tolerance\<close> the
  \<^verbatim>\<open>abs\<close> is evaluated only when \<^verbatim>\<open>f_new == 0\<close> is false.
\<close>

function cnewton_loop_checked ::
  "int \<Rightarrow> real \<Rightarrow> real \<Rightarrow> real \<Rightarrow> int \<Rightarrow> complex \<Rightarrow> int \<Rightarrow> error + outcome option" where
  "cnewton_loop_checked M tolerance x_duplet y_duplet i z counter =
     (if i < M then
        (case Newton_Raphson_checked z of
           Inl e \<Rightarrow> Inl e
         | Inr z_new \<Rightarrow>
             (case f_checked z_new of
                Inl e \<Rightarrow> Inl e
              | Inr f_new \<Rightarrow>
                  if f_new = 0 then
                    Inr (Some \<lparr>o_x_duplet = x_duplet, o_y_duplet = y_duplet, o_root = z_new,
                      o_f_root = f_new, o_counter = counter + 1,
                      o_log_counter = log 10 (real_of_int (counter + 1))\<rparr>)
                  else
                    (case py_abs (z_new - z) of
                       Inl e \<Rightarrow> Inl e
                     | Inr a \<Rightarrow>
                         if a < tolerance then
                           Inr (Some \<lparr>o_x_duplet = x_duplet, o_y_duplet = y_duplet,
                             o_root = z_new, o_f_root = f_new, o_counter = counter + 1,
                             o_log_counter = log 10 (real_of_int (counter + 1))\<rparr>)
                         else if i = M - 1 then
                           Inr (Some \<lparr>o_x_duplet = x_duplet, o_y_duplet = y_duplet,
                             o_root = z_new, o_f_root = f_new, o_counter = counter + 1,
                             o_log_counter = log 10 (real_of_int (counter + 1))\<rparr>)
                         else cnewton_loop_checked M tolerance x_duplet y_duplet (i + 1) z_new
                           (counter + 1))))
      else Inr None)"
  by pat_completeness auto
termination
  by (relation "measure (\<lambda>(M, tolerance, x_duplet, y_duplet, i, z, counter). nat (M - i))") auto

declare cnewton_loop_checked.simps [simp del]

definition solve_cnewton_checked :: "int \<Rightarrow> real \<Rightarrow> real \<times> real \<Rightarrow> error + outcome option" where
  "solve_cnewton_checked M tolerance duplet =
     (let counter = 0;
          (x_duplet, y_duplet) = duplet;
          z = Complex x_duplet y_duplet
      in cnewton_loop_checked M tolerance x_duplet y_duplet 0 z counter)"

text \<open>The same for the polynomial of degree nine.\<close>

definition f2_checked :: "complex \<Rightarrow> error + complex" where
  "f2_checked z =
     (case py_pow z 9 of Inl e \<Rightarrow> Inl e | Inr p9 \<Rightarrow>
      case py_pow z 7 of Inl e \<Rightarrow> Inl e | Inr p7 \<Rightarrow>
      case py_pow z 5 of Inl e \<Rightarrow> Inl e | Inr p5 \<Rightarrow>
      case py_pow z 3 of Inl e \<Rightarrow> Inl e | Inr p3 \<Rightarrow>
        Inr (35 * p9 - 180 * p7 + 378 * p5 - 420 * p3 + 315 * z))"

definition Newton_Raphson2_checked :: "complex \<Rightarrow> error + complex" where
  "Newton_Raphson2_checked z =
     (case py_pow z 9 of Inl e \<Rightarrow> Inl e | Inr p9 \<Rightarrow>
      case py_pow z 7 of Inl e \<Rightarrow> Inl e | Inr p7 \<Rightarrow>
      case py_pow z 5 of Inl e \<Rightarrow> Inl e | Inr p5 \<Rightarrow>
      case py_pow z 3 of Inl e \<Rightarrow> Inl e | Inr p3 \<Rightarrow>
      case py_pow z 8 of Inl e \<Rightarrow> Inl e | Inr p8 \<Rightarrow>
      case py_pow z 6 of Inl e \<Rightarrow> Inl e | Inr p6 \<Rightarrow>
      case py_pow z 4 of Inl e \<Rightarrow> Inl e | Inr p4 \<Rightarrow>
      case py_pow z 2 of Inl e \<Rightarrow> Inl e | Inr p2 \<Rightarrow>
        if 35 * 9 * p8 - 180 * 7 * p6 + 378 * 5 * p4 - 420 * 3 * p2 + 315 = 0
        then Inl ZeroDivisionError
        else Inr (z - (35 * p9 - 180 * p7 + 378 * p5 - 420 * p3 + 315 * z)
                    / (35 * 9 * p8 - 180 * 7 * p6 + 378 * 5 * p4 - 420 * 3 * p2 + 315)))"

function cnewton2_loop_checked ::
  "int \<Rightarrow> real \<Rightarrow> real \<Rightarrow> real \<Rightarrow> int \<Rightarrow> complex \<Rightarrow> int \<Rightarrow> error + outcome option" where
  "cnewton2_loop_checked M tolerance x_duplet y_duplet i z counter =
     (if i < M then
        (case Newton_Raphson2_checked z of
           Inl e \<Rightarrow> Inl e
         | Inr z_new \<Rightarrow>
             (case f2_checked z_new of
                Inl e \<Rightarrow> Inl e
              | Inr f_new \<Rightarrow>
                  if f_new = 0 then
                    Inr (Some \<lparr>o_x_duplet = x_duplet, o_y_duplet = y_duplet, o_root = z_new,
                      o_f_root = f_new, o_counter = counter + 1,
                      o_log_counter = log 10 (real_of_int (counter + 1))\<rparr>)
                  else
                    (case py_abs (z_new - z) of
                       Inl e \<Rightarrow> Inl e
                     | Inr a \<Rightarrow>
                         if a < tolerance then
                           Inr (Some \<lparr>o_x_duplet = x_duplet, o_y_duplet = y_duplet,
                             o_root = z_new, o_f_root = f_new, o_counter = counter + 1,
                             o_log_counter = log 10 (real_of_int (counter + 1))\<rparr>)
                         else if i = M - 1 then
                           Inr (Some \<lparr>o_x_duplet = x_duplet, o_y_duplet = y_duplet,
                             o_root = z_new, o_f_root = f_new, o_counter = counter + 1,
                             o_log_counter = log 10 (real_of_int (counter + 1))\<rparr>)
                         else cnewton2_loop_checked M tolerance x_duplet y_duplet (i + 1) z_new
                           (counter + 1))))
      else Inr None)"
  by pat_completeness auto
termination
  by (relation "measure (\<lambda>(M, tolerance, x_duplet, y_duplet, i, z, counter). nat (M - i))") auto

declare cnewton2_loop_checked.simps [simp del]

definition solve_cnewton2_checked :: "int \<Rightarrow> real \<Rightarrow> real \<times> real \<Rightarrow> error + outcome option" where
  "solve_cnewton2_checked M tolerance duplet =
     (let counter = 0;
          (x_duplet, y_duplet) = duplet;
          z = Complex x_duplet y_duplet
      in cnewton2_loop_checked M tolerance x_duplet y_duplet 0 z counter)"

section \<open>The loop of the solvers\<close>

text \<open>One pass through the body of the loop of \<^const>\<open>solve_cnewton\<close>: its four ways out.\<close>

lemma cnewton_loop_done:
  "\<not> i < M \<Longrightarrow> cnewton_loop M tolerance x y i z c = Inr None"
  by (subst cnewton_loop.simps) simp

lemma cnewton_loop_raise:
  "i < M \<Longrightarrow> Newton_Raphson z = Inl e \<Longrightarrow> cnewton_loop M tolerance x y i z c = Inl e"
  by (subst cnewton_loop.simps) simp

lemma cnewton_loop_return:
  "i < M \<Longrightarrow> Newton_Raphson z = Inr z_new \<Longrightarrow>
   f z_new = 0 \<or> cmod (z_new - z) < tolerance \<or> i = M - 1 \<Longrightarrow>
   cnewton_loop M tolerance x y i z c =
     Inr (Some \<lparr>o_x_duplet = x, o_y_duplet = y, o_root = z_new, o_f_root = f z_new,
       o_counter = c + 1, o_log_counter = log 10 (real_of_int (c + 1))\<rparr>)"
  by (subst cnewton_loop.simps) (auto simp: Let_def)

lemma cnewton_loop_continue:
  "i < M \<Longrightarrow> Newton_Raphson z = Inr z_new \<Longrightarrow>
   \<not> (f z_new = 0 \<or> cmod (z_new - z) < tolerance \<or> i = M - 1) \<Longrightarrow>
   cnewton_loop M tolerance x y i z c = cnewton_loop M tolerance x y (i + 1) z_new (c + 1)"
  by (subst cnewton_loop.simps) (simp add: Let_def)

lemma Newton_Raphson_error: "Newton_Raphson z = Inl e \<Longrightarrow> e = ZeroDivisionError"
  by (simp add: Newton_Raphson_def split: if_splits)

lemma cnewton_loop_result:
  "i < M \<Longrightarrow>
   cnewton_loop M tolerance x y i z c = Inl ZeroDivisionError \<or>
   (\<exists>out. cnewton_loop M tolerance x y i z c = Inr (Some out) \<and>
      o_x_duplet out = x \<and> o_y_duplet out = y \<and>
      o_f_root out = f (o_root out) \<and>
      c + 1 \<le> o_counter out \<and> o_counter out \<le> c + (M - i) \<and>
      o_log_counter out = log 10 (real_of_int (o_counter out)))"
proof (induction M tolerance x y i z c rule: cnewton_loop.induct)
  case (1 M tolerance x y i z c)
  show ?case
  proof (cases "Newton_Raphson z")
    case (Inl e)
    then show ?thesis
      using "1.prems" cnewton_loop_raise Newton_Raphson_error by blast
  next
    case (Inr z_new)
    show ?thesis
    proof (cases "f z_new = 0 \<or> cmod (z_new - z) < tolerance \<or> i = M - 1")
      case True
      have "cnewton_loop M tolerance x y i z c =
        Inr (Some \<lparr>o_x_duplet = x, o_y_duplet = y, o_root = z_new, o_f_root = f z_new,
          o_counter = c + 1, o_log_counter = log 10 (real_of_int (c + 1))\<rparr>)"
        using "1.prems" Inr True by (rule cnewton_loop_return)
      then show ?thesis
        using "1.prems" by simp
    next
      case False
      then have lt: "i + 1 < M" using "1.prems" by simp
      have eq: "cnewton_loop M tolerance x y i z c =
          cnewton_loop M tolerance x y (i + 1) z_new (c + 1)"
        using "1.prems" Inr False by (rule cnewton_loop_continue)
      have "cnewton_loop M tolerance x y (i + 1) z_new (c + 1) = Inl ZeroDivisionError \<or>
        (\<exists>out. cnewton_loop M tolerance x y (i + 1) z_new (c + 1) = Inr (Some out) \<and>
          o_x_duplet out = x \<and> o_y_duplet out = y \<and>
          o_f_root out = f (o_root out) \<and>
          c + 1 + 1 \<le> o_counter out \<and> o_counter out \<le> c + 1 + (M - (i + 1)) \<and>
          o_log_counter out = log 10 (real_of_int (o_counter out)))"
        using "1.IH" [OF "1.prems" Inr refl refl _ _ lt] False by simp
      then show ?thesis
        unfolding eq by auto
    qed
  qed
qed

lemma solve_cnewton_loop:
  "solve_cnewton M tolerance (x, y) = cnewton_loop M tolerance x y 0 (Complex x y) 0"
  by (simp add: solve_cnewton_def)

lemma solve_cnewton_result:
  assumes "1 \<le> M"
  shows "solve_cnewton M tolerance (x, y) = Inl ZeroDivisionError \<or>
   (\<exists>out. solve_cnewton M tolerance (x, y) = Inr (Some out) \<and>
      o_x_duplet out = x \<and> o_y_duplet out = y \<and>
      o_f_root out = f (o_root out) \<and>
      1 \<le> o_counter out \<and> o_counter out \<le> M \<and>
      o_log_counter out = log 10 (real_of_int (o_counter out)))"
proof -
  have "0 < M" using assms by simp
  from cnewton_loop_result [OF this, of tolerance x y "Complex x y" 0]
  show ?thesis
    unfolding solve_cnewton_loop by simp
qed

lemma solve_cnewton_none:
  "M \<le> 0 \<Longrightarrow> solve_cnewton M tolerance d = Inr None"
  by (cases d) (simp add: solve_cnewton_loop cnewton_loop_done)

lemma iterates_defined:
  "iterates step n z = Inr w \<Longrightarrow> k \<le> n \<Longrightarrow> \<exists>v. iterates step k z = Inr v"
proof (induction n arbitrary: w)
  case 0
  then show ?case by simp
next
  case (Suc n)
  show ?case
  proof (cases "k = Suc n")
    case True
    then show ?thesis using Suc.prems by blast
  next
    case False
    then have "k \<le> n" using Suc.prems by simp
    moreover obtain u where "iterates step n z = Inr u"
      using Suc.prems(1) by (auto split: sum.splits)
    ultimately show ?thesis using Suc.IH by blast
  qed
qed

lemma cnewton_loop_exhausted:
  "0 \<le> i \<Longrightarrow> i < M \<Longrightarrow>
   iterates Newton_Raphson (nat i) z0 = Inr z \<Longrightarrow>
   iterates Newton_Raphson (nat M) z0 = Inr zM \<Longrightarrow>
   (\<forall>k<nat M. \<forall>u v. iterates Newton_Raphson k z0 = Inr u \<and>
       iterates Newton_Raphson (Suc k) z0 = Inr v \<longrightarrow>
       \<not> (f v = 0 \<or> cmod (v - u) < tolerance)) \<Longrightarrow>
   cnewton_loop M tolerance x y i z i =
     Inr (Some \<lparr>o_x_duplet = x, o_y_duplet = y, o_root = zM, o_f_root = f zM,
       o_counter = M, o_log_counter = log 10 (real_of_int M)\<rparr>)"
proof (induction "nat (M - i)" arbitrary: i z)
  case 0
  then show ?case by simp
next
  case (Suc n)
  have suc: "nat (i + 1) = Suc (nat i)" using Suc.prems(1) by simp
  have "Suc (nat i) \<le> nat M" using Suc.prems(1,2) by simp
  then obtain z_new where zn: "iterates Newton_Raphson (Suc (nat i)) z0 = Inr z_new"
    using iterates_defined [OF Suc.prems(4)] by blast
  then have step: "Newton_Raphson z = Inr z_new"
    using Suc.prems(3) by simp
  have "nat i < nat M" using Suc.prems(1,2) by simp
  then have nc: "\<not> (f z_new = 0 \<or> cmod (z_new - z) < tolerance)"
    using Suc.prems(5) Suc.prems(3) zn by blast
  show ?case
  proof (cases "i = M - 1")
    case True
    then have "nat M = Suc (nat i)" using Suc.prems(1) by simp
    then have "z_new = zM" using zn Suc.prems(4) by simp
    moreover have "cnewton_loop M tolerance x y i z i =
      Inr (Some \<lparr>o_x_duplet = x, o_y_duplet = y, o_root = z_new, o_f_root = f z_new,
        o_counter = i + 1, o_log_counter = log 10 (real_of_int (i + 1))\<rparr>)"
      using Suc.prems(2) step True by (intro cnewton_loop_return) simp_all
    ultimately show ?thesis using True by simp
  next
    case False
    have "cnewton_loop M tolerance x y i z i =
        cnewton_loop M tolerance x y (i + 1) z_new (i + 1)"
      using Suc.prems(2) step nc False by (intro cnewton_loop_continue) simp_all
    moreover have "n = nat (M - (i + 1))" using Suc.hyps(2) by simp
    moreover have "0 \<le> i + 1" "i + 1 < M" using Suc.prems(1,2) False by simp_all
    moreover have "iterates Newton_Raphson (nat (i + 1)) z0 = Inr z_new"
      using zn suc by simp
    ultimately show ?thesis
      using Suc.hyps(1) [of "i + 1" z_new] Suc.prems(4,5) by simp
  qed
qed

text \<open>The same for \<^const>\<open>solve_cnewton2\<close>.\<close>

lemma cnewton2_loop_done:
  "\<not> i < M \<Longrightarrow> cnewton2_loop M tolerance x y i z c = Inr None"
  by (subst cnewton2_loop.simps) simp

lemma cnewton2_loop_raise:
  "i < M \<Longrightarrow> Newton_Raphson2 z = Inl e \<Longrightarrow> cnewton2_loop M tolerance x y i z c = Inl e"
  by (subst cnewton2_loop.simps) simp

lemma cnewton2_loop_return:
  "i < M \<Longrightarrow> Newton_Raphson2 z = Inr z_new \<Longrightarrow>
   f2 z_new = 0 \<or> cmod (z_new - z) < tolerance \<or> i = M - 1 \<Longrightarrow>
   cnewton2_loop M tolerance x y i z c =
     Inr (Some \<lparr>o_x_duplet = x, o_y_duplet = y, o_root = z_new, o_f_root = f2 z_new,
       o_counter = c + 1, o_log_counter = log 10 (real_of_int (c + 1))\<rparr>)"
  by (subst cnewton2_loop.simps) (auto simp: Let_def)

lemma cnewton2_loop_continue:
  "i < M \<Longrightarrow> Newton_Raphson2 z = Inr z_new \<Longrightarrow>
   \<not> (f2 z_new = 0 \<or> cmod (z_new - z) < tolerance \<or> i = M - 1) \<Longrightarrow>
   cnewton2_loop M tolerance x y i z c = cnewton2_loop M tolerance x y (i + 1) z_new (c + 1)"
  by (subst cnewton2_loop.simps) (simp add: Let_def)

lemma Newton_Raphson2_error: "Newton_Raphson2 z = Inl e \<Longrightarrow> e = ZeroDivisionError"
  by (simp add: Newton_Raphson2_def split: if_splits)

lemma cnewton2_loop_result:
  "i < M \<Longrightarrow>
   cnewton2_loop M tolerance x y i z c = Inl ZeroDivisionError \<or>
   (\<exists>out. cnewton2_loop M tolerance x y i z c = Inr (Some out) \<and>
      o_x_duplet out = x \<and> o_y_duplet out = y \<and>
      o_f_root out = f2 (o_root out) \<and>
      c + 1 \<le> o_counter out \<and> o_counter out \<le> c + (M - i) \<and>
      o_log_counter out = log 10 (real_of_int (o_counter out)))"
proof (induction M tolerance x y i z c rule: cnewton2_loop.induct)
  case (1 M tolerance x y i z c)
  show ?case
  proof (cases "Newton_Raphson2 z")
    case (Inl e)
    then show ?thesis
      using "1.prems" cnewton2_loop_raise Newton_Raphson2_error by blast
  next
    case (Inr z_new)
    show ?thesis
    proof (cases "f2 z_new = 0 \<or> cmod (z_new - z) < tolerance \<or> i = M - 1")
      case True
      have "cnewton2_loop M tolerance x y i z c =
        Inr (Some \<lparr>o_x_duplet = x, o_y_duplet = y, o_root = z_new, o_f_root = f2 z_new,
          o_counter = c + 1, o_log_counter = log 10 (real_of_int (c + 1))\<rparr>)"
        using "1.prems" Inr True by (rule cnewton2_loop_return)
      then show ?thesis
        using "1.prems" by simp
    next
      case False
      then have lt: "i + 1 < M" using "1.prems" by simp
      have eq: "cnewton2_loop M tolerance x y i z c =
          cnewton2_loop M tolerance x y (i + 1) z_new (c + 1)"
        using "1.prems" Inr False by (rule cnewton2_loop_continue)
      have "cnewton2_loop M tolerance x y (i + 1) z_new (c + 1) = Inl ZeroDivisionError \<or>
        (\<exists>out. cnewton2_loop M tolerance x y (i + 1) z_new (c + 1) = Inr (Some out) \<and>
          o_x_duplet out = x \<and> o_y_duplet out = y \<and>
          o_f_root out = f2 (o_root out) \<and>
          c + 1 + 1 \<le> o_counter out \<and> o_counter out \<le> c + 1 + (M - (i + 1)) \<and>
          o_log_counter out = log 10 (real_of_int (o_counter out)))"
        using "1.IH" [OF "1.prems" Inr refl refl _ _ lt] False by simp
      then show ?thesis
        unfolding eq by auto
    qed
  qed
qed

lemma solve_cnewton2_loop:
  "solve_cnewton2 M tolerance (x, y) = cnewton2_loop M tolerance x y 0 (Complex x y) 0"
  by (simp add: solve_cnewton2_def)

lemma solve_cnewton2_result:
  assumes "1 \<le> M"
  shows "solve_cnewton2 M tolerance (x, y) = Inl ZeroDivisionError \<or>
   (\<exists>out. solve_cnewton2 M tolerance (x, y) = Inr (Some out) \<and>
      o_x_duplet out = x \<and> o_y_duplet out = y \<and>
      o_f_root out = f2 (o_root out) \<and>
      1 \<le> o_counter out \<and> o_counter out \<le> M \<and>
      o_log_counter out = log 10 (real_of_int (o_counter out)))"
proof -
  have "0 < M" using assms by simp
  from cnewton2_loop_result [OF this, of tolerance x y "Complex x y" 0]
  show ?thesis
    unfolding solve_cnewton2_loop by simp
qed

lemma solve_cnewton2_none:
  "M \<le> 0 \<Longrightarrow> solve_cnewton2 M tolerance d = Inr None"
  by (cases d) (simp add: solve_cnewton2_loop cnewton2_loop_done)

lemma cnewton2_loop_exhausted:
  "0 \<le> i \<Longrightarrow> i < M \<Longrightarrow>
   iterates Newton_Raphson2 (nat i) z0 = Inr z \<Longrightarrow>
   iterates Newton_Raphson2 (nat M) z0 = Inr zM \<Longrightarrow>
   (\<forall>k<nat M. \<forall>u v. iterates Newton_Raphson2 k z0 = Inr u \<and>
       iterates Newton_Raphson2 (Suc k) z0 = Inr v \<longrightarrow>
       \<not> (f2 v = 0 \<or> cmod (v - u) < tolerance)) \<Longrightarrow>
   cnewton2_loop M tolerance x y i z i =
     Inr (Some \<lparr>o_x_duplet = x, o_y_duplet = y, o_root = zM, o_f_root = f2 zM,
       o_counter = M, o_log_counter = log 10 (real_of_int M)\<rparr>)"
proof (induction "nat (M - i)" arbitrary: i z)
  case 0
  then show ?case by simp
next
  case (Suc n)
  have suc: "nat (i + 1) = Suc (nat i)" using Suc.prems(1) by simp
  have "Suc (nat i) \<le> nat M" using Suc.prems(1,2) by simp
  then obtain z_new where zn: "iterates Newton_Raphson2 (Suc (nat i)) z0 = Inr z_new"
    using iterates_defined [OF Suc.prems(4)] by blast
  then have step: "Newton_Raphson2 z = Inr z_new"
    using Suc.prems(3) by simp
  have "nat i < nat M" using Suc.prems(1,2) by simp
  then have nc: "\<not> (f2 z_new = 0 \<or> cmod (z_new - z) < tolerance)"
    using Suc.prems(5) Suc.prems(3) zn by blast
  show ?case
  proof (cases "i = M - 1")
    case True
    then have "nat M = Suc (nat i)" using Suc.prems(1) by simp
    then have "z_new = zM" using zn Suc.prems(4) by simp
    moreover have "cnewton2_loop M tolerance x y i z i =
      Inr (Some \<lparr>o_x_duplet = x, o_y_duplet = y, o_root = z_new, o_f_root = f2 z_new,
        o_counter = i + 1, o_log_counter = log 10 (real_of_int (i + 1))\<rparr>)"
      using Suc.prems(2) step True by (intro cnewton2_loop_return) simp_all
    ultimately show ?thesis using True by simp
  next
    case False
    have "cnewton2_loop M tolerance x y i z i =
        cnewton2_loop M tolerance x y (i + 1) z_new (i + 1)"
      using Suc.prems(2) step nc False by (intro cnewton2_loop_continue) simp_all
    moreover have "n = nat (M - (i + 1))" using Suc.hyps(2) by simp
    moreover have "0 \<le> i + 1" "i + 1 < M" using Suc.prems(1,2) False by simp_all
    moreover have "iterates Newton_Raphson2 (nat (i + 1)) z0 = Inr z_new"
      using zn suc by simp
    ultimately show ?thesis
      using Suc.hyps(1) [of "i + 1" z_new] Suc.prems(4,5) by simp
  qed
qed

text \<open>Two runs that end in the first pass: the cubic from its root \<open>1\<close>, the degree-nine
  polynomial from its root \<open>0\<close>.\<close>

lemma Complex_1_0: "Complex 1 0 = 1"
  by (simp add: complex_eq_iff)

lemma Complex_0_0: "Complex 0 0 = 0"
  by (simp add: complex_eq_iff)

lemma solve_cnewton_one:
  assumes "1 \<le> M"
  shows "solve_cnewton M tolerance (1, 0) =
           Inr (Some \<lparr>o_x_duplet = 1, o_y_duplet = 0, o_root = 1, o_f_root = 0,
             o_counter = 1, o_log_counter = 0\<rparr>)"
proof -
  have "Newton_Raphson 1 = Inr 1"
    by (simp add: Newton_Raphson_def)
  moreover have "f 1 = 0"
    by (simp add: f_def)
  moreover have "0 < M" using assms by simp
  ultimately have "cnewton_loop M tolerance 1 0 0 1 0 =
      Inr (Some \<lparr>o_x_duplet = 1, o_y_duplet = 0, o_root = 1, o_f_root = f 1,
        o_counter = 0 + 1, o_log_counter = log 10 (real_of_int (0 + 1))\<rparr>)"
    by (intro cnewton_loop_return) simp_all
  then show ?thesis
    using \<open>f 1 = 0\<close> by (simp add: solve_cnewton_loop Complex_1_0)
qed

lemma solve_cnewton2_zero:
  assumes "1 \<le> M"
  shows "solve_cnewton2 M tolerance (0, 0) =
           Inr (Some \<lparr>o_x_duplet = 0, o_y_duplet = 0, o_root = 0, o_f_root = 0,
             o_counter = 1, o_log_counter = 0\<rparr>)"
proof -
  have "Newton_Raphson2 0 = Inr 0"
    by (simp add: Newton_Raphson2_def)
  moreover have "f2 0 = 0"
    by (simp add: f2_def)
  moreover have "0 < M" using assms by simp
  ultimately have "cnewton2_loop M tolerance 0 0 0 0 0 =
      Inr (Some \<lparr>o_x_duplet = 0, o_y_duplet = 0, o_root = 0, o_f_root = f2 0,
        o_counter = 0 + 1, o_log_counter = log 10 (real_of_int (0 + 1))\<rparr>)"
    by (intro cnewton2_loop_return) simp_all
  then show ?thesis
    using \<open>f2 0 = 0\<close> by (simp add: solve_cnewton2_loop Complex_0_0)
qed

section \<open>Properties of the solver\<close>

text \<open>
  C1. For the cubic, with \<open>M \<ge> 1\<close> and tolerance \<open>1e-9\<close>, the solver started at the
  duplet \<open>(1, 0)\<close> returns an outcome with counter \<open>1\<close>, final estimate exactly \<open>1 + 0i\<close>
  and function value exactly \<open>0\<close>.
\<close>

theorem solve_cnewton_at_root_one:
  assumes "1 \<le> M"
  shows "solve_cnewton M (1 / 10 ^ 9) (1, 0) =
           Inr (Some \<lparr>o_x_duplet = 1, o_y_duplet = 0, o_root = Complex 1 0, o_f_root = 0,
             o_counter = 1, o_log_counter = 0\<rparr>)"
proof -
  have z: "Complex 1 0 = 1"
    by (simp add: complex_eq_iff)
  have nr: "Newton_Raphson 1 = Inr 1"
    by (simp add: Newton_Raphson_def)
  have "cnewton_loop M (1 / 10 ^ 9) 1 0 0 1 0 =
          Inr (Some \<lparr>o_x_duplet = 1, o_y_duplet = 0, o_root = 1, o_f_root = 0,
            o_counter = 1, o_log_counter = 0\<rparr>)"
    using assms by (subst cnewton_loop.simps) (simp add: nr f_def)
  then show ?thesis
    by (simp add: solve_cnewton_def z)
qed

theorem solve_cnewton_at_root_one_witness:
  "(1::int) \<le> 200 \<and>
   solve_cnewton 200 (1 / 10 ^ 9) (1, 0) =
     Inr (Some \<lparr>o_x_duplet = 1, o_y_duplet = 0, o_root = Complex 1 0, o_f_root = 0,
       o_counter = 1, o_log_counter = 0\<rparr>)"
  using solve_cnewton_at_root_one [of 200] by simp

text \<open>
  C4. For every starting duplet and every \<open>M \<ge> 1\<close>, whenever a solver returns an outcome,
  its counter satisfies \<open>1 \<le> counter \<le> M\<close>, its last component is \<open>log10(counter)\<close>, and
  so \<open>0 \<le> log10(counter) \<le> log10(M)\<close>.
\<close>

theorem counter_bounds:
  assumes "1 \<le> M"
  shows "(solve_cnewton M tolerance d = Inr (Some out) \<longrightarrow>
            1 \<le> o_counter out \<and> o_counter out \<le> M \<and>
            o_log_counter out = log 10 (real_of_int (o_counter out)) \<and>
            0 \<le> o_log_counter out \<and> o_log_counter out \<le> log 10 (real_of_int M)) \<and>
         (solve_cnewton2 M tolerance d2 = Inr (Some out2) \<longrightarrow>
            1 \<le> o_counter out2 \<and> o_counter out2 \<le> M \<and>
            o_log_counter out2 = log 10 (real_of_int (o_counter out2)) \<and>
            0 \<le> o_log_counter out2 \<and> o_log_counter out2 \<le> log 10 (real_of_int M))"
proof -
  have logs: "0 \<le> log 10 (real_of_int c) \<and> log 10 (real_of_int c) \<le> log 10 (real_of_int M)"
    if "1 \<le> c" "c \<le> M" for c
    using that by simp
  obtain x y where d: "d = (x, y)" by (cases d)
  obtain x2 y2 where d2: "d2 = (x2, y2)" by (cases d2)
  have one: "1 \<le> o_counter out \<and> o_counter out \<le> M \<and>
      o_log_counter out = log 10 (real_of_int (o_counter out))"
    if "solve_cnewton M tolerance d = Inr (Some out)"
    using solve_cnewton_result [OF assms, of tolerance x y] that unfolding d by auto
  have two: "1 \<le> o_counter out2 \<and> o_counter out2 \<le> M \<and>
      o_log_counter out2 = log 10 (real_of_int (o_counter out2))"
    if "solve_cnewton2 M tolerance d2 = Inr (Some out2)"
    using solve_cnewton2_result [OF assms, of tolerance x2 y2] that unfolding d2 by auto
  show ?thesis
    using one two logs by metis
qed

theorem counter_bounds_witness:
  "(1::int) \<le> 200 \<and>
   solve_cnewton 200 (1 / 10 ^ 9) (1, 0) =
     Inr (Some \<lparr>o_x_duplet = 1, o_y_duplet = 0, o_root = 1, o_f_root = 0,
       o_counter = 1, o_log_counter = 0\<rparr>) \<and>
   solve_cnewton2 200 (1 / 10 ^ 9) (0, 0) =
     Inr (Some \<lparr>o_x_duplet = 0, o_y_duplet = 0, o_root = 0, o_f_root = 0,
       o_counter = 1, o_log_counter = 0\<rparr>) \<and>
   (1::int) \<le> 1 \<and> (1::int) \<le> 200 \<and> (0::real) = log 10 (real_of_int 1) \<and>
   (0::real) \<le> 0 \<and> (0::real) \<le> log 10 (real_of_int 200)"
  using counter_bounds [of 200 "1 / 10 ^ 9" "(1, 0)"
      "\<lparr>o_x_duplet = 1, o_y_duplet = 0, o_root = 1, o_f_root = 0,
        o_counter = 1, o_log_counter = 0\<rparr>" "(0, 0)"
      "\<lparr>o_x_duplet = 0, o_y_duplet = 0, o_root = 0, o_f_root = 0,
        o_counter = 1, o_log_counter = 0\<rparr>"]
    solve_cnewton_one [of 200 "1 / 10 ^ 9"] solve_cnewton2_zero [of 200 "1 / 10 ^ 9"]
  by simp

text \<open>
  C9. For every starting duplet \<open>(x, y)\<close> and \<open>M \<ge> 1\<close>, the first two components of the
  outcome a solver returns are \<open>x\<close> and \<open>y\<close> as supplied.
\<close>

theorem duplet_returned_unchanged:
  assumes "1 \<le> M"
  shows "(solve_cnewton M tolerance (x, y) = Inr (Some out) \<longrightarrow>
            o_x_duplet out = x \<and> o_y_duplet out = y) \<and>
         (solve_cnewton2 M tolerance (x2, y2) = Inr (Some out2) \<longrightarrow>
            o_x_duplet out2 = x2 \<and> o_y_duplet out2 = y2)"
  using solve_cnewton_result [OF assms, of tolerance x y]
    solve_cnewton2_result [OF assms, of tolerance x2 y2]
  by auto

theorem duplet_returned_unchanged_witness:
  "(1::int) \<le> 200 \<and>
   solve_cnewton 200 (1 / 10 ^ 9) (1, 0) =
     Inr (Some \<lparr>o_x_duplet = 1, o_y_duplet = 0, o_root = 1, o_f_root = 0,
       o_counter = 1, o_log_counter = 0\<rparr>) \<and>
   solve_cnewton2 200 (1 / 10 ^ 9) (0, 0) =
     Inr (Some \<lparr>o_x_duplet = 0, o_y_duplet = 0, o_root = 0, o_f_root = 0,
       o_counter = 1, o_log_counter = 0\<rparr>) \<and>
   o_x_duplet \<lparr>o_x_duplet = 1, o_y_duplet = 0, o_root = 1, o_f_root = 0,
       o_counter = 1, o_log_counter = 0\<rparr> = 1 \<and>
   o_y_duplet \<lparr>o_x_duplet = 1, o_y_duplet = 0, o_root = 1, o_f_root = 0,
       o_counter = 1, o_log_counter = 0\<rparr> = 0"
  using duplet_returned_unchanged [of 200 "1 / 10 ^ 9" 1 0
      "\<lparr>o_x_duplet = 1, o_y_duplet = 0, o_root = 1, o_f_root = 0,
        o_counter = 1, o_log_counter = 0\<rparr>" 0 0
      "\<lparr>o_x_duplet = 0, o_y_duplet = 0, o_root = 0, o_f_root = 0,
        o_counter = 1, o_log_counter = 0\<rparr>"]
    solve_cnewton_one [of 200 "1 / 10 ^ 9"] solve_cnewton2_zero [of 200 "1 / 10 ^ 9"]
  by simp

section \<open>The solvers with the exceptions of float arithmetic\<close>

text \<open>
  A run of the second embedding either raises \<^verbatim>\<open>OverflowError\<close> or does what the
  exact one does.
\<close>

lemma py_pow_cases: "py_pow z n = Inl OverflowError \<or> py_pow z n = Inr (z ^ n)"
  by (simp add: py_pow_def)

lemma py_abs_cases: "py_abs w = Inl OverflowError \<or> py_abs w = Inr (cmod w)"
  by (simp add: py_abs_def)

lemma f_checked_cases: "f_checked z = Inl OverflowError \<or> f_checked z = Inr (f z)"
  using py_pow_cases [of z 3] by (auto simp: f_checked_def f_def)

lemma Newton_Raphson_checked_cases:
  "Newton_Raphson_checked z = Inl OverflowError \<or> Newton_Raphson_checked z = Newton_Raphson z"
  using py_pow_cases [of z 3] py_pow_cases [of z 2]
  by (auto simp: Newton_Raphson_checked_def Newton_Raphson_def)

lemma cnewton_loop_checked_cases:
  "cnewton_loop_checked M tolerance x y i z c = Inl OverflowError \<or>
   cnewton_loop_checked M tolerance x y i z c = cnewton_loop M tolerance x y i z c"
proof (induction M tolerance x y i z c rule: cnewton_loop_checked.induct)
  case (1 M tolerance x y i z c)
  show ?case
  proof (cases "i < M")
    case False
    then show ?thesis
      by (subst cnewton_loop_checked.simps) (simp add: cnewton_loop_done)
  next
    case True
    note lt = this
    from Newton_Raphson_checked_cases [of z] show ?thesis
    proof
      assume "Newton_Raphson_checked z = Inl OverflowError"
      then show ?thesis
        using lt by (subst cnewton_loop_checked.simps) simp
    next
      assume nr: "Newton_Raphson_checked z = Newton_Raphson z"
      show ?thesis
      proof (cases "Newton_Raphson z")
        case (Inl e)
        then show ?thesis
          using lt nr by (subst cnewton_loop_checked.simps) (simp add: cnewton_loop_raise)
      next
        case (Inr z_new)
        from f_checked_cases [of z_new] show ?thesis
        proof
          assume "f_checked z_new = Inl OverflowError"
          then show ?thesis
            using lt nr Inr by (subst cnewton_loop_checked.simps) simp
        next
          assume fc: "f_checked z_new = Inr (f z_new)"
          show ?thesis
          proof (cases "f z_new = 0")
            case True
            then show ?thesis
              using lt nr Inr fc
              by (subst cnewton_loop_checked.simps) (simp add: cnewton_loop_return)
          next
            case False
            note nz = this
            from py_abs_cases [of "z_new - z"] show ?thesis
            proof
              assume "py_abs (z_new - z) = Inl OverflowError"
              then show ?thesis
                using lt nr Inr fc nz by (subst cnewton_loop_checked.simps) simp
            next
              assume ab: "py_abs (z_new - z) = Inr (cmod (z_new - z))"
              show ?thesis
              proof (cases "cmod (z_new - z) < tolerance \<or> i = M - 1")
                case True
                then show ?thesis
                  using lt nr Inr fc nz ab
                  by (subst cnewton_loop_checked.simps) (auto simp: cnewton_loop_return)
              next
                case False
                then have eq: "cnewton_loop_checked M tolerance x y i z c =
                    cnewton_loop_checked M tolerance x y (i + 1) z_new (c + 1)"
                  using lt nr Inr fc nz ab by (subst cnewton_loop_checked.simps) simp
                have eq': "cnewton_loop M tolerance x y i z c =
                    cnewton_loop M tolerance x y (i + 1) z_new (c + 1)"
                  using lt Inr nz False by (intro cnewton_loop_continue) simp_all
                have "Newton_Raphson_checked z = Inr z_new" using nr Inr by simp
                from "1.IH" [OF lt this fc nz ab] False
                show ?thesis
                  unfolding eq eq' by simp
              qed
            qed
          qed
        qed
      qed
    qed
  qed
qed

lemma solve_cnewton_checked_loop:
  "solve_cnewton_checked M tolerance (x, y) =
     cnewton_loop_checked M tolerance x y 0 (Complex x y) 0"
  by (simp add: solve_cnewton_checked_def)

lemma solve_cnewton_checked_cases:
  "solve_cnewton_checked M tolerance d = Inl OverflowError \<or>
   solve_cnewton_checked M tolerance d = solve_cnewton M tolerance d"
proof -
  obtain x y where "d = (x, y)" by (cases d)
  then show ?thesis
    using cnewton_loop_checked_cases [of M tolerance x y 0 "Complex x y" 0]
    by (simp add: solve_cnewton_checked_loop solve_cnewton_loop)
qed

lemma cnewton_loop_checked_done:
  "\<not> i < M \<Longrightarrow> cnewton_loop_checked M tolerance x y i z c = Inr None"
  by (subst cnewton_loop_checked.simps) simp

lemma solve_cnewton_checked_none:
  "M \<le> 0 \<Longrightarrow> solve_cnewton_checked M tolerance d = Inr None"
  by (cases d) (simp add: solve_cnewton_checked_loop cnewton_loop_checked_done)

lemma f2_checked_cases: "f2_checked z = Inl OverflowError \<or> f2_checked z = Inr (f2 z)"
  using py_pow_cases [of z 9] py_pow_cases [of z 7] py_pow_cases [of z 5] py_pow_cases [of z 3]
  by (auto simp: f2_checked_def f2_def)

lemma Newton_Raphson2_checked_cases:
  "Newton_Raphson2_checked z = Inl OverflowError \<or> Newton_Raphson2_checked z = Newton_Raphson2 z"
  using py_pow_cases [of z 9] py_pow_cases [of z 7] py_pow_cases [of z 5] py_pow_cases [of z 3]
    py_pow_cases [of z 8] py_pow_cases [of z 6] py_pow_cases [of z 4] py_pow_cases [of z 2]
  by (auto simp: Newton_Raphson2_checked_def Newton_Raphson2_def)

lemma cnewton2_loop_checked_cases:
  "cnewton2_loop_checked M tolerance x y i z c = Inl OverflowError \<or>
   cnewton2_loop_checked M tolerance x y i z c = cnewton2_loop M tolerance x y i z c"
proof (induction M tolerance x y i z c rule: cnewton2_loop_checked.induct)
  case (1 M tolerance x y i z c)
  show ?case
  proof (cases "i < M")
    case False
    then show ?thesis
      by (subst cnewton2_loop_checked.simps) (simp add: cnewton2_loop_done)
  next
    case True
    note lt = this
    from Newton_Raphson2_checked_cases [of z] show ?thesis
    proof
      assume "Newton_Raphson2_checked z = Inl OverflowError"
      then show ?thesis
        using lt by (subst cnewton2_loop_checked.simps) simp
    next
      assume nr: "Newton_Raphson2_checked z = Newton_Raphson2 z"
      show ?thesis
      proof (cases "Newton_Raphson2 z")
        case (Inl e)
        then show ?thesis
          using lt nr by (subst cnewton2_loop_checked.simps) (simp add: cnewton2_loop_raise)
      next
        case (Inr z_new)
        from f2_checked_cases [of z_new] show ?thesis
        proof
          assume "f2_checked z_new = Inl OverflowError"
          then show ?thesis
            using lt nr Inr by (subst cnewton2_loop_checked.simps) simp
        next
          assume fc: "f2_checked z_new = Inr (f2 z_new)"
          show ?thesis
          proof (cases "f2 z_new = 0")
            case True
            then show ?thesis
              using lt nr Inr fc
              by (subst cnewton2_loop_checked.simps) (simp add: cnewton2_loop_return)
          next
            case False
            note nz = this
            from py_abs_cases [of "z_new - z"] show ?thesis
            proof
              assume "py_abs (z_new - z) = Inl OverflowError"
              then show ?thesis
                using lt nr Inr fc nz by (subst cnewton2_loop_checked.simps) simp
            next
              assume ab: "py_abs (z_new - z) = Inr (cmod (z_new - z))"
              show ?thesis
              proof (cases "cmod (z_new - z) < tolerance \<or> i = M - 1")
                case True
                then show ?thesis
                  using lt nr Inr fc nz ab
                  by (subst cnewton2_loop_checked.simps) (auto simp: cnewton2_loop_return)
              next
                case False
                then have eq: "cnewton2_loop_checked M tolerance x y i z c =
                    cnewton2_loop_checked M tolerance x y (i + 1) z_new (c + 1)"
                  using lt nr Inr fc nz ab by (subst cnewton2_loop_checked.simps) simp
                have eq': "cnewton2_loop M tolerance x y i z c =
                    cnewton2_loop M tolerance x y (i + 1) z_new (c + 1)"
                  using lt Inr nz False by (intro cnewton2_loop_continue) simp_all
                have "Newton_Raphson2_checked z = Inr z_new" using nr Inr by simp
                from "1.IH" [OF lt this fc nz ab] False
                show ?thesis
                  unfolding eq eq' by simp
              qed
            qed
          qed
        qed
      qed
    qed
  qed
qed

lemma solve_cnewton2_checked_loop:
  "solve_cnewton2_checked M tolerance (x, y) =
     cnewton2_loop_checked M tolerance x y 0 (Complex x y) 0"
  by (simp add: solve_cnewton2_checked_def)

lemma solve_cnewton2_checked_cases:
  "solve_cnewton2_checked M tolerance d = Inl OverflowError \<or>
   solve_cnewton2_checked M tolerance d = solve_cnewton2 M tolerance d"
proof -
  obtain x y where "d = (x, y)" by (cases d)
  then show ?thesis
    using cnewton2_loop_checked_cases [of M tolerance x y 0 "Complex x y" 0]
    by (simp add: solve_cnewton2_checked_loop solve_cnewton2_loop)
qed

lemma cnewton2_loop_checked_done:
  "\<not> i < M \<Longrightarrow> cnewton2_loop_checked M tolerance x y i z c = Inr None"
  by (subst cnewton2_loop_checked.simps) simp

lemma solve_cnewton2_checked_none:
  "M \<le> 0 \<Longrightarrow> solve_cnewton2_checked M tolerance d = Inr None"
  by (cases d) (simp add: solve_cnewton2_checked_loop cnewton2_loop_checked_done)

lemma in_range_small: "cmod w \<le> 1 \<Longrightarrow> in_range w"
proof -
  assume "cmod w \<le> 1"
  then have "\<bar>Re w\<bar> \<le> 1" "\<bar>Im w\<bar> \<le> 1"
    using abs_Re_le_cmod [of w] abs_Im_le_cmod [of w] by linarith+
  moreover have "1 \<le> DBL_MAX" by (simp add: DBL_MAX_def)
  ultimately show ?thesis by (simp add: in_range_def)
qed

lemma solve_cnewton_checked_one:
  "solve_cnewton_checked 200 tolerance (1, 0) =
     Inr (Some \<lparr>o_x_duplet = 1, o_y_duplet = 0, o_root = 1, o_f_root = 0,
       o_counter = 1, o_log_counter = 0\<rparr>)"
proof -
  have "py_pow 1 n = Inr 1" for n
    by (simp add: py_pow_def in_range_small)
  then have "Newton_Raphson_checked 1 = Inr 1" "f_checked 1 = Inr 0"
    by (simp_all add: Newton_Raphson_checked_def f_checked_def)
  then have "cnewton_loop_checked 200 tolerance 1 0 0 1 0 =
      Inr (Some \<lparr>o_x_duplet = 1, o_y_duplet = 0, o_root = 1, o_f_root = 0,
        o_counter = 1, o_log_counter = 0\<rparr>)"
    by (subst cnewton_loop_checked.simps) simp
  then show ?thesis
    by (simp add: solve_cnewton_checked_loop Complex_1_0)
qed

lemma solve_cnewton2_checked_zero:
  "solve_cnewton2_checked 200 tolerance (0, 0) =
     Inr (Some \<lparr>o_x_duplet = 0, o_y_duplet = 0, o_root = 0, o_f_root = 0,
       o_counter = 1, o_log_counter = 0\<rparr>)"
proof -
  have "py_pow 0 n = Inr 0" if "0 < n" for n
    using that by (simp add: py_pow_def zero_power in_range_small)
  then have "Newton_Raphson2_checked 0 = Inr 0" "f2_checked 0 = Inr 0"
    by (simp_all add: Newton_Raphson2_checked_def f2_checked_def)
  then have "cnewton2_loop_checked 200 tolerance 0 0 0 0 0 =
      Inr (Some \<lparr>o_x_duplet = 0, o_y_duplet = 0, o_root = 0, o_f_root = 0,
        o_counter = 1, o_log_counter = 0\<rparr>)"
    by (subst cnewton2_loop_checked.simps) simp
  then show ?thesis
    by (simp add: solve_cnewton2_checked_loop Complex_0_0)
qed

lemma py_pow_overflows:
  assumes "2 ^ 1024 \<le> x ^ n"
  shows "py_pow (complex_of_real x) n = Inl OverflowError"
proof -
  have "Re (complex_of_real x ^ n) = x ^ n"
    by (simp flip: of_real_power)
  moreover have "DBL_MAX < 2 ^ 1024"
    by (simp add: DBL_MAX_def)
  ultimately have "\<not> in_range (complex_of_real x ^ n)"
    using assms by (simp add: in_range_def)
  then show ?thesis
    by (simp add: py_pow_def)
qed

lemma Complex_real: "Complex x 0 = complex_of_real x"
  by (simp add: complex_eq_iff)

text \<open>
  C10 as stated: for \<open>M \<ge> 1\<close> an outcome is always returned provided no division fault
  occurs. It fails for \<open>M = 200\<close> from the duplet \<open>(2\<^sup>3\<^sup>4\<^sup>2, 0)\<close>, where \<^verbatim>\<open>z**3\<close> raises
  \<^verbatim>\<open>OverflowError\<close>: no outcome and no division fault. The same holds of
  \<^verbatim>\<open>solve_cnewton2\<close> from \<open>(2\<^sup>1\<^sup>1\<^sup>4, 0)\<close>, where \<^verbatim>\<open>z**9\<close> raises it.
\<close>

theorem outcome_unless_division_fault_counterexample:
  "solve_cnewton_checked 200 (1 / 10 ^ 9) (2 ^ 342, 0) = Inl OverflowError \<and>
   solve_cnewton2_checked 200 (1 / 10 ^ 9) (2 ^ 114, 0) = Inl OverflowError"
proof
  have "py_pow (complex_of_real (2 ^ 342)) 3 = Inl OverflowError"
    by (rule py_pow_overflows) simp
  then have "Newton_Raphson_checked (complex_of_real (2 ^ 342)) = Inl OverflowError"
    by (simp add: Newton_Raphson_checked_def)
  then have "cnewton_loop_checked 200 (1 / 10 ^ 9) (2 ^ 342) 0 0 (complex_of_real (2 ^ 342)) 0 =
      Inl OverflowError"
    by (subst cnewton_loop_checked.simps) simp
  then show "solve_cnewton_checked 200 (1 / 10 ^ 9) (2 ^ 342, 0) = Inl OverflowError"
    by (simp only: solve_cnewton_checked_loop Complex_real)
next
  have "py_pow (complex_of_real (2 ^ 114)) 9 = Inl OverflowError"
    by (rule py_pow_overflows) simp
  then have "Newton_Raphson2_checked (complex_of_real (2 ^ 114)) = Inl OverflowError"
    by (simp add: Newton_Raphson2_checked_def)
  then have "cnewton2_loop_checked 200 (1 / 10 ^ 9) (2 ^ 114) 0 0 (complex_of_real (2 ^ 114)) 0 =
      Inl OverflowError"
    by (subst cnewton2_loop_checked.simps) simp
  then show "solve_cnewton2_checked 200 (1 / 10 ^ 9) (2 ^ 114, 0) = Inl OverflowError"
    by (simp only: solve_cnewton2_checked_loop Complex_real)
qed

text \<open>
  C10, amended. If the budget satisfies \<open>M \<le> 0\<close>, both solvers return no outcome: the
  loop body never runs and the result is \<^verbatim>\<open>None\<close>. For \<open>M \<ge> 1\<close> a solver returns an
  outcome unless an exception is raised, which is \<^verbatim>\<open>ZeroDivisionError\<close> from the
  division or \<^verbatim>\<open>OverflowError\<close> from the complex exponentiation or from \<^verbatim>\<open>abs\<close>.
\<close>

theorem outcome_unless_exception:
  "(M \<le> 0 \<longrightarrow>
      solve_cnewton_checked M tolerance d = Inr None \<and>
      solve_cnewton2_checked M tolerance d = Inr None) \<and>
   (1 \<le> M \<longrightarrow>
      (solve_cnewton_checked M tolerance d \<noteq> Inl ZeroDivisionError \<and>
       solve_cnewton_checked M tolerance d \<noteq> Inl OverflowError \<longrightarrow>
         (\<exists>out. solve_cnewton_checked M tolerance d = Inr (Some out))) \<and>
      (solve_cnewton2_checked M tolerance d2 \<noteq> Inl ZeroDivisionError \<and>
       solve_cnewton2_checked M tolerance d2 \<noteq> Inl OverflowError \<longrightarrow>
         (\<exists>out. solve_cnewton2_checked M tolerance d2 = Inr (Some out))))"
proof -
  obtain x y where d: "d = (x, y)" by (cases d)
  obtain x2 y2 where d2: "d2 = (x2, y2)" by (cases d2)
  have none: "solve_cnewton_checked M tolerance d = Inr None \<and>
      solve_cnewton2_checked M tolerance d = Inr None" if "M \<le> 0"
    using that by (simp add: solve_cnewton_checked_none solve_cnewton2_checked_none)
  have one: "\<exists>out. solve_cnewton_checked M tolerance d = Inr (Some out)"
    if "1 \<le> M" "solve_cnewton_checked M tolerance d \<noteq> Inl ZeroDivisionError"
      "solve_cnewton_checked M tolerance d \<noteq> Inl OverflowError"
    using that solve_cnewton_checked_cases [of M tolerance d]
      solve_cnewton_result [of M tolerance x y]
    unfolding d by auto
  have two: "\<exists>out. solve_cnewton2_checked M tolerance d2 = Inr (Some out)"
    if "1 \<le> M" "solve_cnewton2_checked M tolerance d2 \<noteq> Inl ZeroDivisionError"
      "solve_cnewton2_checked M tolerance d2 \<noteq> Inl OverflowError"
    using that solve_cnewton2_checked_cases [of M tolerance d2]
      solve_cnewton2_result [of M tolerance x2 y2]
    unfolding d2 by auto
  show ?thesis
    using none one two by blast
qed

theorem outcome_unless_exception_witness:
  "solve_cnewton_checked 0 (1 / 10 ^ 9) (1, 0) = Inr None \<and>
   solve_cnewton2_checked 0 (1 / 10 ^ 9) (1, 0) = Inr None \<and>
   solve_cnewton_checked 200 (1 / 10 ^ 9) (1, 0) \<noteq> Inl ZeroDivisionError \<and>
   solve_cnewton_checked 200 (1 / 10 ^ 9) (1, 0) \<noteq> Inl OverflowError \<and>
   (\<exists>out. solve_cnewton_checked 200 (1 / 10 ^ 9) (1, 0) = Inr (Some out)) \<and>
   solve_cnewton2_checked 200 (1 / 10 ^ 9) (0, 0) \<noteq> Inl ZeroDivisionError \<and>
   solve_cnewton2_checked 200 (1 / 10 ^ 9) (0, 0) \<noteq> Inl OverflowError \<and>
   (\<exists>out. solve_cnewton2_checked 200 (1 / 10 ^ 9) (0, 0) = Inr (Some out))"
proof -
  have a: "solve_cnewton_checked 200 (1 / 10 ^ 9) (1, 0) \<noteq> Inl ZeroDivisionError"
    "solve_cnewton_checked 200 (1 / 10 ^ 9) (1, 0) \<noteq> Inl OverflowError"
    by (simp_all add: solve_cnewton_checked_one)
  have b: "solve_cnewton2_checked 200 (1 / 10 ^ 9) (0, 0) \<noteq> Inl ZeroDivisionError"
    "solve_cnewton2_checked 200 (1 / 10 ^ 9) (0, 0) \<noteq> Inl OverflowError"
    by (simp_all add: solve_cnewton2_checked_zero)
  have le: "(0::int) \<le> 0" "(1::int) \<le> 200" by simp_all
  show ?thesis
    using outcome_unless_exception [of 0 "1 / 10 ^ 9" "(1, 0)" "(1, 0)"]
      outcome_unless_exception [of 200 "1 / 10 ^ 9" "(1, 0)" "(0, 0)"] a b le
    by blast
qed

text \<open>Two runs that use up their budget: the cubic from \<open>2\<close> with \<open>M = 2\<close>, the degree-nine
  polynomial from \<open>2\<close> with \<open>M = 1\<close>.\<close>

lemma Complex_2_0: "Complex 2 0 = 2"
  by (simp add: complex_eq_iff)

lemma Newton_Raphson_2: "Newton_Raphson 2 = Inr (17 / 12)"
  by (simp add: Newton_Raphson_def)

lemma f_17_12: "f (17 / 12) = 3185 / 1728"
  by (simp add: f_def power3_eq_cube)

lemma cmod_step_2: "cmod (17 / 12 - 2) = 7 / 12"
proof -
  have "(17 / 12 - 2 :: complex) = - (7 / 12)" by simp
  then show ?thesis by (simp only: norm_minus_cancel norm_divide norm_numeral)
qed

lemma Newton_Raphson2_2: "Newton_Raphson2 2 = Inr (46784 / 25515)"
  by (simp add: Newton_Raphson2_def)

lemma cmod_step2_2: "cmod (46784 / 25515 - 2) = 4246 / 25515"
proof -
  have "(46784 / 25515 - 2 :: complex) = - (4246 / 25515)" by simp
  then show ?thesis by (simp only: norm_minus_cancel norm_divide norm_numeral)
qed

lemma f2_nonzero: "f2 (46784 / 25515) \<noteq> 0"
  by (simp add: f2_def power_divide)


lemma Newton_Raphson_17_12: "Newton_Raphson (17 / 12) = Inr (5777 / 5202)"
  by (simp add: Newton_Raphson_def power_divide)

lemma f_5777_5202: "f (5777 / 5202) \<noteq> 0"
  by (simp add: f_def power_divide)

lemma cmod_step_17_12: "cmod (5777 / 5202 - 17 / 12) = 3185 / 10404"
proof -
  have "(5777 / 5202 - 17 / 12 :: complex) = - (3185 / 10404)" by simp
  then show ?thesis by (simp only: norm_minus_cancel norm_divide norm_numeral)
qed

lemma iterates_cubic_2:
  "iterates Newton_Raphson 0 (Complex 2 0) = Inr 2"
  "iterates Newton_Raphson (Suc 0) (Complex 2 0) = Inr (17 / 12)"
  "iterates Newton_Raphson (Suc (Suc 0)) (Complex 2 0) = Inr (5777 / 5202)"
  by (simp_all add: Complex_2_0 Newton_Raphson_2 Newton_Raphson_17_12)

lemma iterates_degree9_2:
  "iterates Newton_Raphson2 0 (Complex 2 0) = Inr 2"
  "iterates Newton_Raphson2 (Suc 0) (Complex 2 0) = Inr (46784 / 25515)"
  by (simp_all add: Complex_2_0 Newton_Raphson2_2)

text \<open>
  C5. For every starting duplet and \<open>M \<ge> 1\<close>, if none of the first \<open>M\<close> iterates satisfies
  the convergence test (\<open>f(z_new) = 0\<close> or \<open>|z_new - z| < tolerance\<close>), the solver still
  returns an outcome, with counter \<open>M\<close>, built as a converged outcome is: the last
  \<open>z_new\<close>, \<open>f(z_new)\<close>, the counter and its \<open>log10\<close>. The outcome has these six
  components only, none of which tells exhaustion from convergence.
\<close>

theorem exhausted_outcome:
  "(1 \<le> M \<and>
    iterates Newton_Raphson (nat M) (Complex x y) = Inr zM \<and>
    (\<forall>k<nat M. \<forall>u v.
       iterates Newton_Raphson k (Complex x y) = Inr u \<and>
       iterates Newton_Raphson (Suc k) (Complex x y) = Inr v \<longrightarrow>
       \<not> (f v = 0 \<or> cmod (v - u) < tolerance)) \<longrightarrow>
    solve_cnewton M tolerance (x, y) =
      Inr (Some \<lparr>o_x_duplet = x, o_y_duplet = y, o_root = zM, o_f_root = f zM,
        o_counter = M, o_log_counter = log 10 (real_of_int M)\<rparr>)) \<and>
   (1 \<le> M \<and>
    iterates Newton_Raphson2 (nat M) (Complex x y) = Inr zM2 \<and>
    (\<forall>k<nat M. \<forall>u v.
       iterates Newton_Raphson2 k (Complex x y) = Inr u \<and>
       iterates Newton_Raphson2 (Suc k) (Complex x y) = Inr v \<longrightarrow>
       \<not> (f2 v = 0 \<or> cmod (v - u) < tolerance)) \<longrightarrow>
    solve_cnewton2 M tolerance (x, y) =
      Inr (Some \<lparr>o_x_duplet = x, o_y_duplet = y, o_root = zM2, o_f_root = f2 zM2,
        o_counter = M, o_log_counter = log 10 (real_of_int M)\<rparr>))"
proof (intro conjI impI)
  assume a: "1 \<le> M \<and>
    iterates Newton_Raphson (nat M) (Complex x y) = Inr zM \<and>
    (\<forall>k<nat M. \<forall>u v.
       iterates Newton_Raphson k (Complex x y) = Inr u \<and>
       iterates Newton_Raphson (Suc k) (Complex x y) = Inr v \<longrightarrow>
       \<not> (f v = 0 \<or> cmod (v - u) < tolerance))"
  then have pos: "0 < M" by simp
  have start: "iterates Newton_Raphson (nat 0) (Complex x y) = Inr (Complex x y)" by simp
  have last: "iterates Newton_Raphson (nat M) (Complex x y) = Inr zM" using a by blast
  have never: "\<forall>k<nat M. \<forall>u v.
       iterates Newton_Raphson k (Complex x y) = Inr u \<and>
       iterates Newton_Raphson (Suc k) (Complex x y) = Inr v \<longrightarrow>
       \<not> (f v = 0 \<or> cmod (v - u) < tolerance)" using a by blast
  show "solve_cnewton M tolerance (x, y) =
      Inr (Some \<lparr>o_x_duplet = x, o_y_duplet = y, o_root = zM, o_f_root = f zM,
        o_counter = M, o_log_counter = log 10 (real_of_int M)\<rparr>)"
    unfolding solve_cnewton_loop
    by (rule cnewton_loop_exhausted [OF order_refl pos start last never])
next
  assume a: "1 \<le> M \<and>
    iterates Newton_Raphson2 (nat M) (Complex x y) = Inr zM2 \<and>
    (\<forall>k<nat M. \<forall>u v.
       iterates Newton_Raphson2 k (Complex x y) = Inr u \<and>
       iterates Newton_Raphson2 (Suc k) (Complex x y) = Inr v \<longrightarrow>
       \<not> (f2 v = 0 \<or> cmod (v - u) < tolerance))"
  then have pos: "0 < M" by simp
  have start: "iterates Newton_Raphson2 (nat 0) (Complex x y) = Inr (Complex x y)" by simp
  have last: "iterates Newton_Raphson2 (nat M) (Complex x y) = Inr zM2" using a by blast
  have never: "\<forall>k<nat M. \<forall>u v.
       iterates Newton_Raphson2 k (Complex x y) = Inr u \<and>
       iterates Newton_Raphson2 (Suc k) (Complex x y) = Inr v \<longrightarrow>
       \<not> (f2 v = 0 \<or> cmod (v - u) < tolerance)" using a by blast
  show "solve_cnewton2 M tolerance (x, y) =
      Inr (Some \<lparr>o_x_duplet = x, o_y_duplet = y, o_root = zM2, o_f_root = f2 zM2,
        o_counter = M, o_log_counter = log 10 (real_of_int M)\<rparr>)"
    unfolding solve_cnewton2_loop
    by (rule cnewton2_loop_exhausted [OF order_refl pos start last never])
qed

theorem exhausted_outcome_witness:
  "solve_cnewton 2 (1 / 10 ^ 9) (2, 0) =
     Inr (Some \<lparr>o_x_duplet = 2, o_y_duplet = 0, o_root = 5777 / 5202,
       o_f_root = f (5777 / 5202), o_counter = 2, o_log_counter = log 10 (real_of_int 2)\<rparr>) \<and>
   solve_cnewton2 1 (1 / 10 ^ 9) (2, 0) =
     Inr (Some \<lparr>o_x_duplet = 2, o_y_duplet = 0, o_root = 46784 / 25515,
       o_f_root = f2 (46784 / 25515), o_counter = 1, o_log_counter = log 10 (real_of_int 1)\<rparr>)"
proof -
  have n2: "nat 2 = Suc (Suc 0)" and n1: "nat 1 = Suc 0" by simp_all
  have last: "iterates Newton_Raphson (nat 2) (Complex 2 0) = Inr (5777 / 5202)"
    unfolding n2 by (rule iterates_cubic_2)
  have never: "\<forall>k<nat 2. \<forall>u v.
       iterates Newton_Raphson k (Complex 2 0) = Inr u \<and>
       iterates Newton_Raphson (Suc k) (Complex 2 0) = Inr v \<longrightarrow>
       \<not> (f v = 0 \<or> cmod (v - u) < 1 / 10 ^ 9)"
  proof (intro allI impI)
    fix k u v
    assume k: "k < nat 2"
      and uv: "iterates Newton_Raphson k (Complex 2 0) = Inr u \<and>
        iterates Newton_Raphson (Suc k) (Complex 2 0) = Inr v"
    from k have "k = 0 \<or> k = Suc 0" unfolding n2 by auto
    then show "\<not> (f v = 0 \<or> cmod (v - u) < 1 / 10 ^ 9)"
    proof
      assume "k = 0"
      then have u: "u = 2" and v: "v = 17 / 12"
        using uv unfolding \<open>k = 0\<close> iterates_cubic_2 by simp_all
      show ?thesis unfolding u v by (simp add: f_17_12 cmod_step_2)
    next
      assume "k = Suc 0"
      then have u: "u = 17 / 12" and v: "v = 5777 / 5202"
        using uv unfolding \<open>k = Suc 0\<close> iterates_cubic_2 by simp_all
      show ?thesis unfolding u v using f_5777_5202 by (simp add: cmod_step_17_12)
    qed
  qed
  have last2: "iterates Newton_Raphson2 (nat 1) (Complex 2 0) = Inr (46784 / 25515)"
    unfolding n1 by (rule iterates_degree9_2)
  have never2: "\<forall>k<nat 1. \<forall>u v.
       iterates Newton_Raphson2 k (Complex 2 0) = Inr u \<and>
       iterates Newton_Raphson2 (Suc k) (Complex 2 0) = Inr v \<longrightarrow>
       \<not> (f2 v = 0 \<or> cmod (v - u) < 1 / 10 ^ 9)"
  proof (intro allI impI)
    fix k u v
    assume k: "k < nat 1"
      and uv: "iterates Newton_Raphson2 k (Complex 2 0) = Inr u \<and>
        iterates Newton_Raphson2 (Suc k) (Complex 2 0) = Inr v"
    from k have "k = 0" unfolding n1 by auto
    then have u: "u = 2" and v: "v = 46784 / 25515"
      using uv unfolding \<open>k = 0\<close> iterates_degree9_2 by simp_all
    show "\<not> (f2 v = 0 \<or> cmod (v - u) < 1 / 10 ^ 9)"
      unfolding u v using f2_nonzero by (simp add: cmod_step2_2)
  qed
  have le: "(1::int) \<le> 2" "(1::int) \<le> 1" by simp_all
  show ?thesis
    using exhausted_outcome [of 2 2 0 "5777 / 5202" "1 / 10 ^ 9"]
      exhausted_outcome [of 1 2 0 _ "1 / 10 ^ 9" "46784 / 25515"]
      le last never last2 never2
    by blast
qed

section \<open>The update functions\<close>

lemma f_derivative: "(f has_field_derivative 3 * z ^ 2) (at z)"
proof -
  have "((\<lambda>w. w ^ 3 - 1) has_field_derivative 3 * z ^ 2) (at z)"
    by (auto intro!: derivative_eq_intros)
  moreover have "f = (\<lambda>w. w ^ 3 - 1)"
    by (rule ext) (simp add: f_def)
  ultimately show ?thesis by simp
qed

lemma f2_derivative:
  "(f2 has_field_derivative
      315 * z ^ 8 - 1260 * z ^ 6 + 1890 * z ^ 4 - 1260 * z ^ 2 + 315) (at z)"
proof -
  have "((\<lambda>w. 35 * w ^ 9 - 180 * w ^ 7 + 378 * w ^ 5 - 420 * w ^ 3 + 315 * w)
      has_field_derivative
        315 * z ^ 8 - 1260 * z ^ 6 + 1890 * z ^ 4 - 1260 * z ^ 2 + 315) (at z)"
    by (auto intro!: derivative_eq_intros)
  moreover have "f2 = (\<lambda>w. 35 * w ^ 9 - 180 * w ^ 7 + 378 * w ^ 5 - 420 * w ^ 3 + 315 * w)"
    by (rule ext) (simp add: f2_def)
  ultimately show ?thesis by simp
qed

text \<open>
  C6. Wherever the respective derivative is not zero, the cubic update function is
  \<open>z - (z\<^sup>3 - 1) / (3 z\<^sup>2)\<close>, with \<open>3 z\<^sup>2\<close> the derivative of \<open>f\<close>, and the degree-nine update
  function is \<open>z - f2(z) / g(z)\<close>, with
  \<open>g(z) = 315 z\<^sup>8 - 1260 z\<^sup>6 + 1890 z\<^sup>4 - 1260 z\<^sup>2 + 315\<close> the derivative of \<open>f2\<close>.
\<close>

theorem newton_updates_analytic:
  "(3 * z ^ 2 \<noteq> 0 \<longrightarrow> Newton_Raphson z = Inr (z - f z / (3 * z ^ 2))) \<and>
   (f has_field_derivative 3 * z ^ 2) (at z) \<and>
   (315 * w ^ 8 - 1260 * w ^ 6 + 1890 * w ^ 4 - 1260 * w ^ 2 + 315 \<noteq> 0 \<longrightarrow>
      Newton_Raphson2 w =
        Inr (w - f2 w / (315 * w ^ 8 - 1260 * w ^ 6 + 1890 * w ^ 4 - 1260 * w ^ 2 + 315))) \<and>
   (f2 has_field_derivative
      315 * w ^ 8 - 1260 * w ^ 6 + 1890 * w ^ 4 - 1260 * w ^ 2 + 315) (at w)"
proof (intro conjI impI)
  show "Newton_Raphson z = Inr (z - f z / (3 * z ^ 2))" if "3 * z ^ 2 \<noteq> 0"
    using that by (simp add: Newton_Raphson_def f_def)
  show "(f has_field_derivative 3 * z ^ 2) (at z)"
    by (rule f_derivative)
  show "Newton_Raphson2 w =
        Inr (w - f2 w / (315 * w ^ 8 - 1260 * w ^ 6 + 1890 * w ^ 4 - 1260 * w ^ 2 + 315))"
    if "315 * w ^ 8 - 1260 * w ^ 6 + 1890 * w ^ 4 - 1260 * w ^ 2 + 315 \<noteq> 0"
    using that by (simp add: Newton_Raphson2_def f2_def)
  show "(f2 has_field_derivative
      315 * w ^ 8 - 1260 * w ^ 6 + 1890 * w ^ 4 - 1260 * w ^ 2 + 315) (at w)"
    by (rule f2_derivative)
qed

theorem newton_updates_analytic_witness:
  "3 * (2::complex) ^ 2 \<noteq> 0 \<and> Newton_Raphson 2 = Inr (2 - f 2 / (3 * 2 ^ 2)) \<and>
   315 * (2::complex) ^ 8 - 1260 * 2 ^ 6 + 1890 * 2 ^ 4 - 1260 * 2 ^ 2 + 315 \<noteq> 0 \<and>
   Newton_Raphson2 2 =
     Inr (2 - f2 2 / (315 * 2 ^ 8 - 1260 * 2 ^ 6 + 1890 * 2 ^ 4 - 1260 * 2 ^ 2 + 315))"
proof -
  have a: "3 * (2::complex) ^ 2 \<noteq> 0" by simp
  have b: "315 * (2::complex) ^ 8 - 1260 * 2 ^ 6 + 1890 * 2 ^ 4 - 1260 * 2 ^ 2 + 315 \<noteq> 0"
    by simp
  show ?thesis
    using newton_updates_analytic [of 2 2] a b by blast
qed

text \<open>
  C8. For every exact root \<open>r\<close> of the cubic with \<open>f'(r) \<noteq> 0\<close>, in particular \<open>r = 1\<close>, one
  Newton update of \<open>r\<close> returns a value within \<open>1e-9\<close> of \<open>r\<close>: roots are fixed points of
  the update.
\<close>

theorem root_is_fixed_point:
  assumes "f r = 0" and "3 * r ^ 2 \<noteq> 0"
  shows "Newton_Raphson r = Inr r \<and>
    (\<exists>z_new. Newton_Raphson r = Inr z_new \<and> cmod (z_new - r) < 1 / 10 ^ 9)"
proof -
  have "r ^ 3 - 1 = 0" using assms(1) by (simp add: f_def)
  then have "Newton_Raphson r = Inr r"
    using assms(2) by (simp add: Newton_Raphson_def)
  then show ?thesis by simp
qed

theorem root_is_fixed_point_witness:
  "f 1 = 0 \<and> 3 * (1::complex) ^ 2 \<noteq> 0 \<and> Newton_Raphson 1 = Inr 1 \<and>
    (\<exists>z_new. Newton_Raphson 1 = Inr z_new \<and> cmod (z_new - 1) < 1 / 10 ^ 9)"
proof -
  have a: "f 1 = 0" by (simp add: f_def)
  have b: "3 * (1::complex) ^ 2 \<noteq> 0" by simp
  show ?thesis
    using root_is_fixed_point [OF a b] a b by blast
qed

section \<open>Classification\<close>

text \<open>
  C7. The classification assigns exactly one label to every outcome: the predicates are
  tested in a fixed order, the first that holds determines the label, and the last branch
  takes every outcome that no earlier predicate matched. So each label is assigned exactly
  when its predicate is the first to hold, the labels are pairwise different, and no
  outcome gets none or two.
\<close>

theorem classification_exactly_one_label:
  "cubic_colour tolerance2 rt \<in> {''k'', ''g'', ''r''} \<and>
   (cubic_colour tolerance2 rt = ''k'' \<longleftrightarrow> \<bar>Re rt - 1\<bar> < tolerance2) \<and>
   (cubic_colour tolerance2 rt = ''g'' \<longleftrightarrow>
      \<not> \<bar>Re rt - 1\<bar> < tolerance2 \<and> \<bar>Im rt - 0.8660254040\<bar> < tolerance2) \<and>
   (cubic_colour tolerance2 rt = ''r'' \<longleftrightarrow>
      \<not> \<bar>Re rt - 1\<bar> < tolerance2 \<and> \<not> \<bar>Im rt - 0.8660254040\<bar> < tolerance2) \<and>
   degree9_colour tolerance2 rt \<in>
     {''k'', ''g'', ''r'', ''darkorchid'', ''orange'', ''yellow'', ''cyan'', ''w'', ''pink''} \<and>
   (degree9_colour tolerance2 rt = ''k'' \<longleftrightarrow>
      \<bar>Re rt - 0\<bar> < tolerance2) \<and>
   (degree9_colour tolerance2 rt = ''g'' \<longleftrightarrow>
      \<not> (\<bar>Re rt - 0\<bar> < tolerance2) \<and>
      (\<bar>Re rt - 0.93774544\<bar> < tolerance2 \<and> \<bar>Im rt - 0.65437520\<bar> < tolerance2)) \<and>
   (degree9_colour tolerance2 rt = ''r'' \<longleftrightarrow>
      \<not> (\<bar>Re rt - 0\<bar> < tolerance2) \<and>
      \<not> (\<bar>Re rt - 0.93774544\<bar> < tolerance2 \<and> \<bar>Im rt - 0.65437520\<bar> < tolerance2) \<and>
      (\<bar>Re rt - 0.93774544\<bar> < tolerance2 \<and> \<bar>Im rt + 0.65437520\<bar> < tolerance2)) \<and>
   (degree9_colour tolerance2 rt = ''darkorchid'' \<longleftrightarrow>
      \<not> (\<bar>Re rt - 0\<bar> < tolerance2) \<and>
      \<not> (\<bar>Re rt - 0.93774544\<bar> < tolerance2 \<and> \<bar>Im rt - 0.65437520\<bar> < tolerance2) \<and>
      \<not> (\<bar>Re rt - 0.93774544\<bar> < tolerance2 \<and> \<bar>Im rt + 0.65437520\<bar> < tolerance2) \<and>
      (\<bar>Re rt + 0.93774544\<bar> < tolerance2 \<and> \<bar>Im rt - 0.65437520\<bar> < tolerance2)) \<and>
   (degree9_colour tolerance2 rt = ''orange'' \<longleftrightarrow>
      \<not> (\<bar>Re rt - 0\<bar> < tolerance2) \<and>
      \<not> (\<bar>Re rt - 0.93774544\<bar> < tolerance2 \<and> \<bar>Im rt - 0.65437520\<bar> < tolerance2) \<and>
      \<not> (\<bar>Re rt - 0.93774544\<bar> < tolerance2 \<and> \<bar>Im rt + 0.65437520\<bar> < tolerance2) \<and>
      \<not> (\<bar>Re rt + 0.93774544\<bar> < tolerance2 \<and> \<bar>Im rt - 0.65437520\<bar> < tolerance2) \<and>
      (\<bar>Re rt + 0.93774544\<bar> < tolerance2 \<and> \<bar>Im rt + 0.65437520\<bar> < tolerance2)) \<and>
   (degree9_colour tolerance2 rt = ''yellow'' \<longleftrightarrow>
      \<not> (\<bar>Re rt - 0\<bar> < tolerance2) \<and>
      \<not> (\<bar>Re rt - 0.93774544\<bar> < tolerance2 \<and> \<bar>Im rt - 0.65437520\<bar> < tolerance2) \<and>
      \<not> (\<bar>Re rt - 0.93774544\<bar> < tolerance2 \<and> \<bar>Im rt + 0.65437520\<bar> < tolerance2) \<and>
      \<not> (\<bar>Re rt + 0.93774544\<bar> < tolerance2 \<and> \<bar>Im rt - 0.65437520\<bar> < tolerance2) \<and>
      \<not> (\<bar>Re rt + 0.93774544\<bar> < tolerance2 \<and> \<bar>Im rt + 0.65437520\<bar> < tolerance2) \<and>
      (\<bar>Re rt + 1.48569\<bar> < tolerance2 \<and> \<bar>Im rt - 0.295006\<bar> < tolerance2)) \<and>
   (degree9_colour tolerance2 rt = ''cyan'' \<longleftrightarrow>
      \<not> (\<bar>Re rt - 0\<bar> < tolerance2) \<and>
      \<not> (\<bar>Re rt - 0.93774544\<bar> < tolerance2 \<and> \<bar>Im rt - 0.65437520\<bar> < tolerance2) \<and>
      \<not> (\<bar>Re rt - 0.93774544\<bar> < tolerance2 \<and> \<bar>Im rt + 0.65437520\<bar> < tolerance2) \<and>
      \<not> (\<bar>Re rt + 0.93774544\<bar> < tolerance2 \<and> \<bar>Im rt - 0.65437520\<bar> < tolerance2) \<and>
      \<not> (\<bar>Re rt + 0.93774544\<bar> < tolerance2 \<and> \<bar>Im rt + 0.65437520\<bar> < tolerance2) \<and>
      \<not> (\<bar>Re rt + 1.48569\<bar> < tolerance2 \<and> \<bar>Im rt - 0.295006\<bar> < tolerance2) \<and>
      (\<bar>Re rt + 1.48569\<bar> < tolerance2 \<and> \<bar>Im rt + 0.295006\<bar> < tolerance2)) \<and>
   (degree9_colour tolerance2 rt = ''w'' \<longleftrightarrow>
      \<not> (\<bar>Re rt - 0\<bar> < tolerance2) \<and>
      \<not> (\<bar>Re rt - 0.93774544\<bar> < tolerance2 \<and> \<bar>Im rt - 0.65437520\<bar> < tolerance2) \<and>
      \<not> (\<bar>Re rt - 0.93774544\<bar> < tolerance2 \<and> \<bar>Im rt + 0.65437520\<bar> < tolerance2) \<and>
      \<not> (\<bar>Re rt + 0.93774544\<bar> < tolerance2 \<and> \<bar>Im rt - 0.65437520\<bar> < tolerance2) \<and>
      \<not> (\<bar>Re rt + 0.93774544\<bar> < tolerance2 \<and> \<bar>Im rt + 0.65437520\<bar> < tolerance2) \<and>
      \<not> (\<bar>Re rt + 1.48569\<bar> < tolerance2 \<and> \<bar>Im rt - 0.295006\<bar> < tolerance2) \<and>
      \<not> (\<bar>Re rt + 1.48569\<bar> < tolerance2 \<and> \<bar>Im rt + 0.295006\<bar> < tolerance2) \<and>
      (\<bar>Re rt - 1.48569\<bar> < tolerance2 \<and> \<bar>Im rt - 0.295006\<bar> < tolerance2)) \<and>
   (degree9_colour tolerance2 rt = ''pink'' \<longleftrightarrow>
      \<not> (\<bar>Re rt - 0\<bar> < tolerance2) \<and>
      \<not> (\<bar>Re rt - 0.93774544\<bar> < tolerance2 \<and> \<bar>Im rt - 0.65437520\<bar> < tolerance2) \<and>
      \<not> (\<bar>Re rt - 0.93774544\<bar> < tolerance2 \<and> \<bar>Im rt + 0.65437520\<bar> < tolerance2) \<and>
      \<not> (\<bar>Re rt + 0.93774544\<bar> < tolerance2 \<and> \<bar>Im rt - 0.65437520\<bar> < tolerance2) \<and>
      \<not> (\<bar>Re rt + 0.93774544\<bar> < tolerance2 \<and> \<bar>Im rt + 0.65437520\<bar> < tolerance2) \<and>
      \<not> (\<bar>Re rt + 1.48569\<bar> < tolerance2 \<and> \<bar>Im rt - 0.295006\<bar> < tolerance2) \<and>
      \<not> (\<bar>Re rt + 1.48569\<bar> < tolerance2 \<and> \<bar>Im rt + 0.295006\<bar> < tolerance2) \<and>
      \<not> (\<bar>Re rt - 1.48569\<bar> < tolerance2 \<and> \<bar>Im rt - 0.295006\<bar> < tolerance2))"
proof -
  have cubic: "cubic_colour tolerance2 rt \<in> {''k'', ''g'', ''r''} \<and>
   (cubic_colour tolerance2 rt = ''k'' \<longleftrightarrow> \<bar>Re rt - 1\<bar> < tolerance2) \<and>
   (cubic_colour tolerance2 rt = ''g'' \<longleftrightarrow>
      \<not> \<bar>Re rt - 1\<bar> < tolerance2 \<and> \<bar>Im rt - 0.8660254040\<bar> < tolerance2) \<and>
   (cubic_colour tolerance2 rt = ''r'' \<longleftrightarrow>
      \<not> \<bar>Re rt - 1\<bar> < tolerance2 \<and> \<not> \<bar>Im rt - 0.8660254040\<bar> < tolerance2)"
    by (simp add: cubic_colour_def)
  have degree9: "degree9_colour tolerance2 rt \<in>
     {''k'', ''g'', ''r'', ''darkorchid'', ''orange'', ''yellow'', ''cyan'', ''w'', ''pink''} \<and>
   (degree9_colour tolerance2 rt = ''k'' \<longleftrightarrow>
      \<bar>Re rt - 0\<bar> < tolerance2) \<and>
   (degree9_colour tolerance2 rt = ''g'' \<longleftrightarrow>
      \<not> (\<bar>Re rt - 0\<bar> < tolerance2) \<and>
      (\<bar>Re rt - 0.93774544\<bar> < tolerance2 \<and> \<bar>Im rt - 0.65437520\<bar> < tolerance2)) \<and>
   (degree9_colour tolerance2 rt = ''r'' \<longleftrightarrow>
      \<not> (\<bar>Re rt - 0\<bar> < tolerance2) \<and>
      \<not> (\<bar>Re rt - 0.93774544\<bar> < tolerance2 \<and> \<bar>Im rt - 0.65437520\<bar> < tolerance2) \<and>
      (\<bar>Re rt - 0.93774544\<bar> < tolerance2 \<and> \<bar>Im rt + 0.65437520\<bar> < tolerance2)) \<and>
   (degree9_colour tolerance2 rt = ''darkorchid'' \<longleftrightarrow>
      \<not> (\<bar>Re rt - 0\<bar> < tolerance2) \<and>
      \<not> (\<bar>Re rt - 0.93774544\<bar> < tolerance2 \<and> \<bar>Im rt - 0.65437520\<bar> < tolerance2) \<and>
      \<not> (\<bar>Re rt - 0.93774544\<bar> < tolerance2 \<and> \<bar>Im rt + 0.65437520\<bar> < tolerance2) \<and>
      (\<bar>Re rt + 0.93774544\<bar> < tolerance2 \<and> \<bar>Im rt - 0.65437520\<bar> < tolerance2)) \<and>
   (degree9_colour tolerance2 rt = ''orange'' \<longleftrightarrow>
      \<not> (\<bar>Re rt - 0\<bar> < tolerance2) \<and>
      \<not> (\<bar>Re rt - 0.93774544\<bar> < tolerance2 \<and> \<bar>Im rt - 0.65437520\<bar> < tolerance2) \<and>
      \<not> (\<bar>Re rt - 0.93774544\<bar> < tolerance2 \<and> \<bar>Im rt + 0.65437520\<bar> < tolerance2) \<and>
      \<not> (\<bar>Re rt + 0.93774544\<bar> < tolerance2 \<and> \<bar>Im rt - 0.65437520\<bar> < tolerance2) \<and>
      (\<bar>Re rt + 0.93774544\<bar> < tolerance2 \<and> \<bar>Im rt + 0.65437520\<bar> < tolerance2)) \<and>
   (degree9_colour tolerance2 rt = ''yellow'' \<longleftrightarrow>
      \<not> (\<bar>Re rt - 0\<bar> < tolerance2) \<and>
      \<not> (\<bar>Re rt - 0.93774544\<bar> < tolerance2 \<and> \<bar>Im rt - 0.65437520\<bar> < tolerance2) \<and>
      \<not> (\<bar>Re rt - 0.93774544\<bar> < tolerance2 \<and> \<bar>Im rt + 0.65437520\<bar> < tolerance2) \<and>
      \<not> (\<bar>Re rt + 0.93774544\<bar> < tolerance2 \<and> \<bar>Im rt - 0.65437520\<bar> < tolerance2) \<and>
      \<not> (\<bar>Re rt + 0.93774544\<bar> < tolerance2 \<and> \<bar>Im rt + 0.65437520\<bar> < tolerance2) \<and>
      (\<bar>Re rt + 1.48569\<bar> < tolerance2 \<and> \<bar>Im rt - 0.295006\<bar> < tolerance2)) \<and>
   (degree9_colour tolerance2 rt = ''cyan'' \<longleftrightarrow>
      \<not> (\<bar>Re rt - 0\<bar> < tolerance2) \<and>
      \<not> (\<bar>Re rt - 0.93774544\<bar> < tolerance2 \<and> \<bar>Im rt - 0.65437520\<bar> < tolerance2) \<and>
      \<not> (\<bar>Re rt - 0.93774544\<bar> < tolerance2 \<and> \<bar>Im rt + 0.65437520\<bar> < tolerance2) \<and>
      \<not> (\<bar>Re rt + 0.93774544\<bar> < tolerance2 \<and> \<bar>Im rt - 0.65437520\<bar> < tolerance2) \<and>
      \<not> (\<bar>Re rt + 0.93774544\<bar> < tolerance2 \<and> \<bar>Im rt + 0.65437520\<bar> < tolerance2) \<and>
      \<not> (\<bar>Re rt + 1.48569\<bar> < tolerance2 \<and> \<bar>Im rt - 0.295006\<bar> < tolerance2) \<and>
      (\<bar>Re rt + 1.48569\<bar> < tolerance2 \<and> \<bar>Im rt + 0.295006\<bar> < tolerance2)) \<and>
   (degree9_colour tolerance2 rt = ''w'' \<longleftrightarrow>
      \<not> (\<bar>Re rt - 0\<bar> < tolerance2) \<and>
      \<not> (\<bar>Re rt - 0.93774544\<bar> < tolerance2 \<and> \<bar>Im rt - 0.65437520\<bar> < tolerance2) \<and>
      \<not> (\<bar>Re rt - 0.93774544\<bar> < tolerance2 \<and> \<bar>Im rt + 0.65437520\<bar> < tolerance2) \<and>
      \<not> (\<bar>Re rt + 0.93774544\<bar> < tolerance2 \<and> \<bar>Im rt - 0.65437520\<bar> < tolerance2) \<and>
      \<not> (\<bar>Re rt + 0.93774544\<bar> < tolerance2 \<and> \<bar>Im rt + 0.65437520\<bar> < tolerance2) \<and>
      \<not> (\<bar>Re rt + 1.48569\<bar> < tolerance2 \<and> \<bar>Im rt - 0.295006\<bar> < tolerance2) \<and>
      \<not> (\<bar>Re rt + 1.48569\<bar> < tolerance2 \<and> \<bar>Im rt + 0.295006\<bar> < tolerance2) \<and>
      (\<bar>Re rt - 1.48569\<bar> < tolerance2 \<and> \<bar>Im rt - 0.295006\<bar> < tolerance2)) \<and>
   (degree9_colour tolerance2 rt = ''pink'' \<longleftrightarrow>
      \<not> (\<bar>Re rt - 0\<bar> < tolerance2) \<and>
      \<not> (\<bar>Re rt - 0.93774544\<bar> < tolerance2 \<and> \<bar>Im rt - 0.65437520\<bar> < tolerance2) \<and>
      \<not> (\<bar>Re rt - 0.93774544\<bar> < tolerance2 \<and> \<bar>Im rt + 0.65437520\<bar> < tolerance2) \<and>
      \<not> (\<bar>Re rt + 0.93774544\<bar> < tolerance2 \<and> \<bar>Im rt - 0.65437520\<bar> < tolerance2) \<and>
      \<not> (\<bar>Re rt + 0.93774544\<bar> < tolerance2 \<and> \<bar>Im rt + 0.65437520\<bar> < tolerance2) \<and>
      \<not> (\<bar>Re rt + 1.48569\<bar> < tolerance2 \<and> \<bar>Im rt - 0.295006\<bar> < tolerance2) \<and>
      \<not> (\<bar>Re rt + 1.48569\<bar> < tolerance2 \<and> \<bar>Im rt + 0.295006\<bar> < tolerance2) \<and>
      \<not> (\<bar>Re rt - 1.48569\<bar> < tolerance2 \<and> \<bar>Im rt - 0.295006\<bar> < tolerance2))"
    by (simp add: degree9_colour_def)
  show ?thesis
    using cubic degree9 by blast
qed

section \<open>The grid\<close>

lemma length_linspace: "length (linspace start stop num) = num"
  by (simp add: linspace_def Let_def)

lemma linspace_nth:
  assumes "2 \<le> num" and "k < num"
  shows "linspace start stop num ! k = start + (stop - start) * (real k / real (num - 1))"
proof (cases "k = num - 1")
  case True
  have "real (num - 1) \<noteq> 0" using assms(1) by simp
  then have "start + (stop - start) * (real (num - 1) / real (num - 1)) = stop"
    by simp
  moreover have "linspace start stop num ! k = stop"
    using assms True by (simp add: linspace_def Let_def)
  ultimately show ?thesis using True by simp
next
  case False
  then show ?thesis
    using assms by (simp add: linspace_def Let_def)
qed

lemma grid_nth:
  assumes "i < N" and "j < N"
  shows "grid N (x1, y1) (x2, y2) ! i ! j = (linspace x1 x2 N ! j, linspace y1 y2 N ! i)"
  using assms by (simp add: grid_def dstack_def meshgrid_def length_linspace Let_def)

lemma grid_nth_lerp:
  assumes "2 \<le> N" and "i < N" and "j < N"
  shows "grid N (x1, y1) (x2, y2) ! i ! j =
    (lerp x1 x2 (real j / real (N - 1)), lerp y1 y2 (real i / real (N - 1)))"
  using assms by (simp add: grid_nth linspace_nth lerp_def)

text \<open>
  C3 as stated: \<open>grid[i][j] = (lerp(x1, x2, i/(N-1)), lerp(y1, y2, j/(N-1)))\<close>, the row
  index selecting \<open>x\<close>. It fails for \<open>N = 3\<close> and the corners \<open>(-2, 2)\<close>, \<open>(2, -2)\<close> at
  \<open>i = 0\<close>, \<open>j = 1\<close>, where the grid holds \<open>(0, 2)\<close> and the formula gives \<open>(-2, 0)\<close>.
\<close>

theorem grid_rows_are_x_counterexample:
  "grid 3 (- 2, 2) (2, - 2) ! 0 ! 1 \<noteq>
     (lerp (- 2) 2 (real 0 / real (3 - 1)), lerp 2 (- 2) (real 1 / real (3 - 1)))"
proof -
  have "grid 3 (- 2, 2) (2, - 2) ! 0 ! 1 =
      (lerp (- 2) 2 (real 1 / real (3 - 1)), lerp 2 (- 2) (real 0 / real (3 - 1)))"
    by (rule grid_nth_lerp) simp_all
  then show ?thesis
    by (simp add: lerp_def)
qed

text \<open>
  C3, amended. For every \<open>N \<ge> 2\<close> and all \<open>i, j < N\<close>,
  \<open>grid[i][j] = (lerp(x1, x2, j/(N-1)), lerp(y1, y2, i/(N-1)))\<close>: the column index \<open>j\<close>
  selects the \<open>x\<close> coordinate and the row index \<open>i\<close> the \<open>y\<close> coordinate, and the four
  boundary points are the corner coordinates.
\<close>

theorem grid_interpolates:
  assumes "2 \<le> N" and "i < N" and "j < N"
  shows "grid N (x1, y1) (x2, y2) ! i ! j =
           (lerp x1 x2 (real j / real (N - 1)), lerp y1 y2 (real i / real (N - 1))) \<and>
         grid N (x1, y1) (x2, y2) ! 0 ! 0 = (x1, y1) \<and>
         grid N (x1, y1) (x2, y2) ! 0 ! (N - 1) = (x2, y1) \<and>
         grid N (x1, y1) (x2, y2) ! (N - 1) ! 0 = (x1, y2) \<and>
         grid N (x1, y1) (x2, y2) ! (N - 1) ! (N - 1) = (x2, y2)"
proof -
  have n: "0 < N" "N - 1 < N" "real (N - 1) \<noteq> 0" using assms(1) by simp_all
  have "grid N (x1, y1) (x2, y2) ! a ! b =
      (lerp x1 x2 (real b / real (N - 1)), lerp y1 y2 (real a / real (N - 1)))"
    if "a < N" "b < N" for a b
    using assms(1) that by (rule grid_nth_lerp)
  then show ?thesis
    using assms n by (simp add: lerp_def)
qed

theorem grid_interpolates_witness:
  "(2::nat) \<le> 3 \<and> (0::nat) < 3 \<and> (1::nat) < 3 \<and>
   grid 3 (- 2, 2) (2, - 2) ! 0 ! 1 = (0, 2) \<and>
   grid 3 (- 2, 2) (2, - 2) ! 0 ! 0 = (- 2, 2) \<and>
   grid 3 (- 2, 2) (2, - 2) ! 0 ! (3 - 1) = (2, 2) \<and>
   grid 3 (- 2, 2) (2, - 2) ! (3 - 1) ! 0 = (- 2, - 2) \<and>
   grid 3 (- 2, 2) (2, - 2) ! (3 - 1) ! (3 - 1) = (2, - 2)"
  using grid_interpolates [of 3 0 1 "- 2" 2 2 "- 2"]
  by (simp add: lerp_def)


section \<open>The grid loop\<close>











end
